theory Spec2Isabelle
  imports Main "HOL-Library.Char_ord" "HOL-Library.List_Lexorder"
begin

section \<open>Errors and reconcile results\<close>

text \<open>
  Go errors as values. \<open>NotFoundErr\<close> is the API server's not-found status
  (\<open>apierrors.IsNotFound\<close>), \<open>ApiErr\<close> any other error of a client or backend call,
  \<open>Errorf\<close> an error made by the controller itself, \<open>Wrapf\<close> the result of
  \<open>errors.Wrap\<close>/\<open>errors.Wrapf\<close>, \<open>AggregateErr\<close> the result of
  \<open>kerrors.NewAggregate\<close>, \<open>ErrClusterLocked\<close> is \<open>remote.ErrClusterLocked\<close>.
\<close>

datatype error =
    NotFoundErr
  | ApiErr string
  | Errorf string
  | Wrapf string error
  | AggregateErr "error list"
  | ErrClusterLocked

fun IsNotFound :: "error \<Rightarrow> bool" where
  "IsNotFound NotFoundErr = True"
| "IsNotFound _ = False"

text \<open>\<open>kerrors.NewAggregate\<close>: nil entries are dropped, an empty list is nil.\<close>

definition NewAggregate :: "error option list \<Rightarrow> error option" where
  "NewAggregate errlist =
     (let errs = List.map_filter id errlist
      in if errs = [] then None else Some (AggregateErr errs))"

text \<open>
  The method \<open>Error()\<close>: a wrapped error prints its message before the cause.
  An aggregate of one error prints that error; a longer one visits its errors,
  those of nested aggregates in their place, keeps the first occurrence of
  each message, and prints the only message left or the bracketed, comma
  separated list of the messages.
\<close>

fun joinStrings :: "string \<Rightarrow> string list \<Rightarrow> string" where
  "joinStrings sep [] = []"
| "joinStrings sep [x] = x"
| "joinStrings sep (x # y # ys) = x @ sep @ joinStrings sep (y # ys)"

fun firstOccurrences :: "string list \<Rightarrow> string list \<Rightarrow> string list" where
  "firstOccurrences seenerrs [] = []"
| "firstOccurrences seenerrs (msg # msgs) =
     (if msg \<in> set seenerrs then firstOccurrences seenerrs msgs
      else msg # firstOccurrences (msg # seenerrs) msgs)"

fun Error :: "error \<Rightarrow> string" and visit :: "error list \<Rightarrow> string list" where
  "Error NotFoundErr = ''not found''"
| "Error (ApiErr msg) = msg"
| "Error (Errorf msg) = msg"
| "Error (Wrapf msg err) = msg @ '': '' @ Error err"
| "Error (AggregateErr []) = []"
| "Error (AggregateErr [err]) = Error err"
| "Error (AggregateErr (err1 # err2 # errs)) =
     (case firstOccurrences [] (visit (err1 # err2 # errs)) of
        [msg] \<Rightarrow> msg
      | msgs \<Rightarrow> ''['' @ joinStrings '', '' msgs @ '']'')"
| "Error ErrClusterLocked = ''cluster is locked already''"
| "visit [] = []"
| "visit (AggregateErr errs # rest) = visit errs @ visit rest"
| "visit (err # rest) = Error err # visit rest"

text \<open>\<open>errors.Is(err, remote.ErrClusterLocked)\<close>: through the wrapping.\<close>

fun IsClusterLocked :: "error \<Rightarrow> bool" where
  "IsClusterLocked ErrClusterLocked = True"
| "IsClusterLocked (Wrapf msg err) = IsClusterLocked err"
| "IsClusterLocked _ = False"

text \<open>\<open>reconcile.Result\<close>; the duration is in nanoseconds.\<close>

record Result =
  Requeue :: bool
  RequeueAfter :: int

definition emptyResult :: Result where
  "emptyResult = \<lparr>Requeue = False, RequeueAfter = 0\<rparr>"

definition IsZero :: "Result \<Rightarrow> bool" where
  "IsZero r = (\<not> Requeue r \<and> RequeueAfter r = 0)"

definition Second :: int where
  "Second = 1000000000"

section \<open>Object metadata\<close>

text \<open>An object key is (namespace, name).\<close>

type_synonym ObjectKey = "string \<times> string"

text \<open>
  The label, annotation and finalizer names and the group version are
  constants of the API packages (\<open>clusterv1\<close>, \<open>infrav1\<close>), which are not among
  the sources. They are given the values of those packages; none of the
  general properties below depends on the values.
\<close>

definition PausedAnnotation :: string where
  "PausedAnnotation = ''cluster.x-k8s.io/paused''"

definition WatchLabel :: string where
  "WatchLabel = ''cluster.x-k8s.io/watch-filter''"

definition ClusterNameLabel :: string where
  "ClusterNameLabel = ''cluster.x-k8s.io/cluster-name''"

definition VMFinalizer :: string where
  "VMFinalizer = ''vspherevm.infrastructure.cluster.x-k8s.io''"

definition IPAddressClaimFinalizer :: string where
  "IPAddressClaimFinalizer = ''vspherevm.infrastructure.cluster.x-k8s.io/ip-claim-protection''"

definition DeploymentZoneFinalizer :: string where
  "DeploymentZoneFinalizer = ''vspheredeploymentzone.infrastructure.cluster.x-k8s.io''"

definition GroupVersion :: string where
  "GroupVersion = ''infrastructure.cluster.x-k8s.io/v1beta1''"

text \<open>
  Reading a Go \<open>map[string]string\<close> at a missing key gives the empty string.
\<close>

definition lookupLabel :: "(string \<rightharpoonup> string) \<Rightarrow> string \<Rightarrow> string" where
  "lookupLabel m k = (case m k of None \<Rightarrow> [] | Some v \<Rightarrow> v)"

text \<open>
  \<open>controllerutil\<close>: \<open>ContainsFinalizer\<close>, \<open>AddFinalizer\<close> (appends when absent) and
  \<open>RemoveFinalizer\<close> (drops every occurrence; its boolean result says whether the
  list changed).
\<close>

definition ContainsFinalizer :: "string list \<Rightarrow> string \<Rightarrow> bool" where
  "ContainsFinalizer fs f = (f \<in> set fs)"

definition AddFinalizer :: "string list \<Rightarrow> string \<Rightarrow> string list" where
  "AddFinalizer fs f = (if f \<in> set fs then fs else fs @ [f])"

definition RemoveFinalizer :: "string list \<Rightarrow> string \<Rightarrow> string list" where
  "RemoveFinalizer fs f = filter (\<lambda>g. g \<noteq> f) fs"

definition RemoveFinalizerChanged :: "string list \<Rightarrow> string \<Rightarrow> bool" where
  "RemoveFinalizerChanged fs f = (length (RemoveFinalizer fs f) \<noteq> length fs)"

section \<open>The cluster watch of the VM controller\<close>

text \<open>
  The part of \<open>clusterv1.Cluster\<close> the watch reads.
\<close>

record Cluster =
  cluster_Name :: string
  cluster_Namespace :: string
  cluster_Labels :: "string \<rightharpoonup> string"
  cluster_Annotations :: "string \<rightharpoonup> string"
  cluster_Spec_Paused :: bool

text \<open>
  \<open>annotations.HasPaused\<close> and \<open>annotations.IsPaused\<close> of cluster-api: an object is
  paused when its cluster has \<open>spec.paused\<close> or the object carries the paused
  annotation. The second argument is the annotation map of the object.
\<close>

definition HasPaused :: "(string \<rightharpoonup> string) \<Rightarrow> bool" where
  "HasPaused annots = (annots PausedAnnotation \<noteq> None)"

definition IsPaused :: "Cluster \<Rightarrow> (string \<rightharpoonup> string) \<Rightarrow> bool" where
  "IsPaused cluster annots = (cluster_Spec_Paused cluster \<or> HasPaused annots)"

datatype 'a event =
    CreateEvent 'a
  | UpdateEvent 'a 'a
  | DeleteEvent 'a
  | GenericEvent 'a

text \<open>The object the handler maps: the new object of an update.\<close>

fun eventObject :: "'a event \<Rightarrow> 'a" where
  "eventObject (CreateEvent obj) = obj"
| "eventObject (UpdateEvent objOld objNew) = objNew"
| "eventObject (DeleteEvent obj) = obj"
| "eventObject (GenericEvent obj) = obj"

text \<open>
  \<open>predicates.ResourceNotPausedAndHasFilterLabel\<close> of cluster-api, installed with
  \<open>WithEventFilter\<close> and so applied to every watch of the controller: the object
  of the event (the new one of an update) has no paused annotation, and carries
  the watch-filter label when a filter value is configured.
\<close>

definition ResourceNotPausedAndHasFilterLabel :: "string \<Rightarrow> Cluster event \<Rightarrow> bool" where
  "ResourceNotPausedAndHasFilterLabel watchFilterValue e =
     (let obj = eventObject e
      in \<not> HasPaused (cluster_Annotations obj) \<and>
         (watchFilterValue = [] \<or> cluster_Labels obj WatchLabel = Some watchFilterValue))"

text \<open>
  The \<open>predicate.Funcs\<close> given to the Cluster watch in \<open>AddVMControllerToManager\<close>:
  \<open>UpdateFunc\<close> and \<open>CreateFunc\<close> are set, the unset \<open>DeleteFunc\<close> and
  \<open>GenericFunc\<close> let every event pass.
\<close>

fun clusterPredicate :: "Cluster event \<Rightarrow> bool" where
  "clusterPredicate (UpdateEvent oldCluster newCluster) =
     (\<not> IsPaused newCluster (cluster_Annotations newCluster))"
| "clusterPredicate (CreateEvent cluster) =
     IsPaused cluster (cluster_Annotations cluster)"
| "clusterPredicate (DeleteEvent cluster) = True"
| "clusterPredicate (GenericEvent cluster) = True"

text \<open>
  What \<open>clusterToVSphereVMs\<close> reads of a listed VSphereVM: its key and labels.
  The list call is given by its outcome: an error, or every VSphereVM of the
  store, of which the label selector keeps those with the cluster's name.
\<close>

record listedVM =
  listed_Namespace :: string
  listed_Name :: string
  listed_Labels :: "string \<rightharpoonup> string"

definition clusterToVSphereVMs :: "error + listedVM list \<Rightarrow> Cluster \<Rightarrow> ObjectKey list" where
  "clusterToVSphereVMs listing a =
     (case listing of
        Inl err \<Rightarrow> []
      | Inr items \<Rightarrow>
          map (\<lambda>vm. (listed_Namespace vm, listed_Name vm))
            (filter (\<lambda>vm. listed_Labels vm ClusterNameLabel = Some (cluster_Name a)) items))"

text \<open>
  The reconcile keys a Cluster event enqueues: the event passes the controller's
  event filter and the watch's predicates, then the map function runs.
\<close>

definition clusterWatchRequests ::
  "string \<Rightarrow> error + listedVM list \<Rightarrow> Cluster event \<Rightarrow> ObjectKey list" where
  "clusterWatchRequests watchFilterValue listing e =
     (if ResourceNotPausedAndHasFilterLabel watchFilterValue e \<and> clusterPredicate e
      then clusterToVSphereVMs listing (eventObject e)
      else [])"

section \<open>Owner references\<close>

record OwnerReference =
  or_APIVersion :: string
  or_Kind :: string
  or_Name :: string
  or_UID :: string

text \<open>
  \<open>schema.ParseGroupVersion\<close>, its group only: \<open>"group/version"\<close> has the group
  before the slash, a string without a slash is a version of the empty group,
  more than one slash is an error (\<open>None\<close>).
\<close>

definition ParseGroup :: "string \<Rightarrow> string option" where
  "ParseGroup gv =
     (if gv = [] \<or> gv = ''/'' then Some []
      else if count_list gv (CHR ''/'') = 0 then Some []
      else if count_list gv (CHR ''/'') = 1 then Some (takeWhile (\<lambda>c. c \<noteq> CHR ''/'') gv)
      else None)"

text \<open>
  \<open>referSameObject\<close>, \<open>EnsureOwnerRef\<close> and \<open>RemoveOwnerRef\<close> of cluster-api's
  \<open>util\<close> package: two references point to the same object when group, kind and
  name agree; ensuring replaces the first such entry or appends; removing drops
  the first such entry.
\<close>

definition referSameObject :: "OwnerReference \<Rightarrow> OwnerReference \<Rightarrow> bool" where
  "referSameObject a b =
     (case ParseGroup (or_APIVersion a) of
        None \<Rightarrow> False
      | Some aGroup \<Rightarrow>
          (case ParseGroup (or_APIVersion b) of
             None \<Rightarrow> False
           | Some bGroup \<Rightarrow> aGroup = bGroup \<and> or_Kind a = or_Kind b \<and> or_Name a = or_Name b))"

fun EnsureOwnerRef :: "OwnerReference list \<Rightarrow> OwnerReference \<Rightarrow> OwnerReference list" where
  "EnsureOwnerRef [] ref = [ref]"
| "EnsureOwnerRef (r # rs) ref =
     (if referSameObject r ref then ref # rs else r # EnsureOwnerRef rs ref)"

fun RemoveOwnerRef :: "OwnerReference list \<Rightarrow> OwnerReference \<Rightarrow> OwnerReference list" where
  "RemoveOwnerRef [] inputRef = []"
| "RemoveOwnerRef (r # rs) inputRef =
     (if referSameObject r inputRef then rs else r # RemoveOwnerRef rs inputRef)"

text \<open>
  The mutating calls a reconciler attempts on the API server, the backend and
  the workload cluster, in the order they are made, whether they succeed or
  not.
\<close>

datatype apiCall =
    ClientCreate ObjectKey
  | ClientPatch ObjectKey
  | ClientUpdate ObjectKey
  | ClientDelete ObjectKey
  | BackendReconcileVM
  | BackendDestroyVM
  | RemoteDeleteNode string

section \<open>The deployment zone controller: deletion\<close>

record VSphereDeploymentZone =
  zone_Kind :: string
  zone_Name :: string
  zone_Finalizers :: "string list"
  zone_DeletionTimestamp :: "nat option"
  zone_Spec_FailureDomain :: string

record VSphereFailureDomain =
  fd_Name :: string
  fd_OwnerReferences :: "OwnerReference list"

record Machine =
  machine_Namespace :: string
  machine_Name :: string
  machine_CreationTimestamp :: nat
  machine_DeletionTimestamp :: "nat option"
  machine_Spec_FailureDomain :: "string option"

text \<open>
  The object store as the zone controller sees it: the cluster-scoped failure
  domains by name, and the log of the writes made.
\<close>

record zoneWorld =
  failureDomains :: "string \<rightharpoonup> VSphereFailureDomain"
  zoneCalls :: "apiCall list"

text \<open>
  The client of the zone controller: the outcome of listing the machines, and
  for each other call the error it returns, if any, on a failure domain name.
  \<open>MachinesAsString\<close> is \<open>util.MachinesAsString\<close>, which prints a list of
  machines for a message; it is not among the sources and is kept as a
  parameter.
\<close>

record zoneClient =
  zc_List :: "error + Machine list"
  zc_GetErr :: "string \<Rightarrow> error option"
  zc_NewHelperErr :: "string \<Rightarrow> error option"
  zc_PatchErr :: "string \<Rightarrow> error option"
  zc_DeleteErr :: "string \<Rightarrow> error option"
  MachinesAsString :: "Machine list \<Rightarrow> string"

definition zc_Get :: "zoneClient \<Rightarrow> zoneWorld \<Rightarrow> string \<Rightarrow> error + VSphereFailureDomain" where
  "zc_Get c w name =
     (case zc_GetErr c name of
        Some err \<Rightarrow> Inl err
      | None \<Rightarrow>
          (case failureDomains w name of
             None \<Rightarrow> Inl NotFoundErr
           | Some failureDomain \<Rightarrow> Inr failureDomain))"

definition zc_Delete :: "zoneClient \<Rightarrow> zoneWorld \<Rightarrow> string \<Rightarrow> zoneWorld \<times> error option" where
  "zc_Delete c w name =
     (case zc_DeleteErr c name of
        Some err \<Rightarrow> (w\<lparr>zoneCalls := zoneCalls w @ [ClientDelete ([], name)]\<rparr>, Some err)
      | None \<Rightarrow>
          (case failureDomains w name of
             None \<Rightarrow> (w\<lparr>zoneCalls := zoneCalls w @ [ClientDelete ([], name)]\<rparr>, Some NotFoundErr)
           | Some failureDomain \<Rightarrow>
               (w\<lparr>failureDomains := (failureDomains w)(name := None),
                  zoneCalls := zoneCalls w @ [ClientDelete ([], name)]\<rparr>, None)))"

text \<open>
  \<open>collections.FromMachineList\<close> of cluster-api: the collection is a Go map from
  machine name to machine, filled in list order, so of the listed machines
  with one name only the one listed last is in it, whatever their namespaces.
  The collection is given by the machines in it.
\<close>

fun FromMachineList :: "Machine list \<Rightarrow> Machine list" where
  "FromMachineList [] = []"
| "FromMachineList (m # ms) =
     (if machine_Name m \<in> set (map machine_Name ms) then FromMachineList ms
      else m # FromMachineList ms)"

text \<open>
  \<open>collections.ActiveMachines\<close>: the machine is not being deleted. \<open>Filter\<close>
  keeps the machines of the collection that pass every filter.
\<close>

definition ActiveMachines :: "Machine \<Rightarrow> bool" where
  "ActiveMachines machine = (machine_DeletionTimestamp machine = None)"

text \<open>
  \<open>SortedByCreationTimestamp\<close>: by creation timestamp, then by name.
\<close>

definition machineLess :: "Machine \<Rightarrow> Machine \<Rightarrow> bool" where
  "machineLess a b =
     (if machine_CreationTimestamp a = machine_CreationTimestamp b
      then machine_Name a < machine_Name b
      else machine_CreationTimestamp a < machine_CreationTimestamp b)"

fun insertMachine :: "Machine \<Rightarrow> Machine list \<Rightarrow> Machine list" where
  "insertMachine m [] = [m]"
| "insertMachine m (x # xs) =
     (if machineLess x m then x # insertMachine m xs else m # x # xs)"

definition SortedByCreationTimestamp :: "Machine list \<Rightarrow> Machine list" where
  "SortedByCreationTimestamp ms = foldr insertMachine ms []"

text \<open>
  \<open>updateOwnerReferences\<close>: a patch helper is made, the owner references the
  function computes are set on the object, the object is patched. The object
  is returned as it is in memory after the call.
\<close>

definition updateOwnerReferences ::
  "zoneClient \<Rightarrow> zoneWorld \<Rightarrow> VSphereFailureDomain \<Rightarrow> (unit \<Rightarrow> OwnerReference list) \<Rightarrow>
     zoneWorld \<times> VSphereFailureDomain \<times> error option" where
  "updateOwnerReferences c w obj ownerRefFunc =
     (case zc_NewHelperErr c (fd_Name obj) of
        Some err \<Rightarrow> (w, obj, Some (Wrapf ''failed to init patch helper for %s %s'' err))
      | None \<Rightarrow>
          (let obj' = obj\<lparr>fd_OwnerReferences := ownerRefFunc ()\<rparr>
           in case zc_PatchErr c (fd_Name obj') of
                Some err \<Rightarrow>
                  (w\<lparr>zoneCalls := zoneCalls w @ [ClientPatch ([], fd_Name obj')]\<rparr>, obj',
                   Some (Wrapf ''failed to patch object %s %s'' err))
              | None \<Rightarrow>
                  (w\<lparr>failureDomains := (failureDomains w)(fd_Name obj' \<mapsto> obj'),
                     zoneCalls := zoneCalls w @ [ClientPatch ([], fd_Name obj')]\<rparr>,
                   obj', None)))"

definition machinesUsingDeploymentZone :: "VSphereDeploymentZone \<Rightarrow> Machine list \<Rightarrow> Machine list" where
  "machinesUsingDeploymentZone zone machines =
     filter (\<lambda>machine. ActiveMachines machine \<and>
                (case machine_Spec_FailureDomain machine of
                   Some failureDomain \<Rightarrow> failureDomain = zone_Name zone
                 | None \<Rightarrow> False)) (FromMachineList machines)"

text \<open>The owner reference \<open>reconcileDelete\<close> removes from the failure domain.\<close>

definition zoneOwnerRef :: "VSphereDeploymentZone \<Rightarrow> OwnerReference" where
  "zoneOwnerRef zone =
     \<lparr>or_APIVersion = GroupVersion, or_Kind = zone_Kind zone,
      or_Name = zone_Name zone, or_UID = []\<rparr>"

text \<open>
  \<open>vsphereDeploymentZoneReconciler.reconcileDelete\<close>. The result is the zone as
  it is in memory after the call (the caller patches it), the object store and
  the returned error.
\<close>

definition zone_reconcileDelete ::
  "zoneClient \<Rightarrow> zoneWorld \<Rightarrow> VSphereDeploymentZone \<Rightarrow>
     VSphereDeploymentZone \<times> zoneWorld \<times> error option" where
  "zone_reconcileDelete c w zone =
     (case zc_List c of
        Inl err \<Rightarrow> (zone, w, Some (Wrapf ''unable to list machines'' err))
      | Inr machines \<Rightarrow>
          (let using = machinesUsingDeploymentZone zone machines
           in if length using > 0
              then (let machineNamesStr = MachinesAsString c (SortedByCreationTimestamp using)
                    in (zone, w,
                        Some (Errorf (''error deleting VSphereDeploymentZone: '' @ zone_Name zone @
                                      '' is currently in use by machines: '' @ machineNamesStr))))
              else
                (case zc_Get c w (zone_Spec_FailureDomain zone) of
                   Inl err \<Rightarrow>
                     (if IsNotFound err
                      then (zone\<lparr>zone_Finalizers :=
                                   RemoveFinalizer (zone_Finalizers zone) DeploymentZoneFinalizer\<rparr>,
                            w, None)
                      else (zone, w, Some err))
                 | Inr failureDomain \<Rightarrow>
                     (case updateOwnerReferences c w failureDomain
                             (\<lambda>_. RemoveOwnerRef (fd_OwnerReferences failureDomain)
                                    (zoneOwnerRef zone)) of
                        (w1, failureDomain1, Some err) \<Rightarrow> (zone, w1, Some err)
                      | (w1, failureDomain1, None) \<Rightarrow>
                          (let (w2, delErr) =
                                 (if length (fd_OwnerReferences failureDomain1) = 0
                                  then zc_Delete c w1 (fd_Name failureDomain1)
                                  else (w1, None))
                           in case delErr of
                                None \<Rightarrow>
                                  (zone\<lparr>zone_Finalizers :=
                                           RemoveFinalizer (zone_Finalizers zone) DeploymentZoneFinalizer\<rparr>,
                                   w2, None)
                              | Some err \<Rightarrow>
                                  (if IsNotFound err
                                   then (zone\<lparr>zone_Finalizers :=
                                           RemoveFinalizer (zone_Finalizers zone) DeploymentZoneFinalizer\<rparr>,
                                         w2, None)
                                   else (zone, w2,
                                         Some (Wrapf ''failed to delete VSphereFailureDomain %s'' err))))))))"

section \<open>Conditions\<close>

datatype ConditionType =
    ReadyCondition
  | VCenterAvailableCondition
  | IPAddressClaimedCondition
  | VMProvisionedCondition

datatype ConditionStatus = ConditionTrue | ConditionFalse | ConditionUnknown

datatype ConditionSeverity =
    ConditionSeverityError
  | ConditionSeverityWarning
  | ConditionSeverityInfo
  | ConditionSeverityNone

record Condition =
  cond_Status :: ConditionStatus
  cond_Severity :: ConditionSeverity
  cond_Reason :: string
  cond_Message :: string

text \<open>
  The conditions of an object, by type (the transition times are left out).
  \<open>conditions.MarkTrue\<close> and \<open>conditions.MarkFalse\<close> of cluster-api set the
  condition of the given type.
\<close>

type_synonym Conditions = "ConditionType \<rightharpoonup> Condition"

definition TrueCondition :: Condition where
  "TrueCondition =
     \<lparr>cond_Status = ConditionTrue, cond_Severity = ConditionSeverityNone,
      cond_Reason = [], cond_Message = []\<rparr>"

definition FalseCondition :: "string \<Rightarrow> ConditionSeverity \<Rightarrow> string \<Rightarrow> Condition" where
  "FalseCondition reason severity message =
     \<lparr>cond_Status = ConditionFalse, cond_Severity = severity,
      cond_Reason = reason, cond_Message = message\<rparr>"

definition MarkTrue :: "Conditions \<Rightarrow> ConditionType \<Rightarrow> Conditions" where
  "MarkTrue conds t = conds(t \<mapsto> TrueCondition)"

definition MarkFalse ::
  "Conditions \<Rightarrow> ConditionType \<Rightarrow> string \<Rightarrow> ConditionSeverity \<Rightarrow> string \<Rightarrow> Conditions" where
  "MarkFalse conds t reason severity message =
     conds(t \<mapsto> FalseCondition reason severity message)"

definition Has :: "Conditions \<Rightarrow> ConditionType \<Rightarrow> bool" where
  "Has conds t = (conds t \<noteq> None)"

definition VCenterUnreachableReason :: string where
  "VCenterUnreachableReason = ''VCenterUnreachable''"

definition DeletingReason :: string where
  "DeletingReason = ''Deleting''"

definition WaitingForStaticIPAllocationReason :: string where
  "WaitingForStaticIPAllocationReason = ''WaitingForStaticIPAllocation''"

definition WaitingForIPAllocationReason :: string where
  "WaitingForIPAllocationReason = ''WaitingForIPAllocation''"

definition IPAddressClaimNotFoundReason :: string where
  "IPAddressClaimNotFoundReason = ''IPAddressClaimNotFound''"

definition IPAddressClaimsBeingCreatedReason :: string where
  "IPAddressClaimsBeingCreatedReason = ''IPAddressClaimsBeingCreated''"

definition WaitingForIPAddressReason :: string where
  "WaitingForIPAddressReason = ''WaitingForIPAddress''"

text \<open>The verb \<open>%d\<close> of \<open>fmt\<close> on a count: decimal digits.\<close>

definition digitChar :: "nat \<Rightarrow> char" where
  "digitChar d = ''0123456789'' ! d"

function fmt_d :: "nat \<Rightarrow> string" where
  "fmt_d n = (if n < 10 then [digitChar n] else fmt_d (n div 10) @ [digitChar (n mod 10)])"
  by pat_completeness auto
termination
  by (relation "measure id") auto

section \<open>API types of the VM controller\<close>

record TypedLocalObjectReference =
  ref_APIGroup :: "string option"
  ref_Kind :: string
  ref_Name :: string

record IPAddressClaim =
  claim_Name :: string
  claim_Namespace :: string
  claim_OwnerReferences :: "OwnerReference list"
  claim_Finalizers :: "string list"
  claim_Labels :: "string \<rightharpoonup> string"
  claim_Spec_PoolRef :: TypedLocalObjectReference
  claim_Status_AddressRef_Name :: string
  claim_Status_Conditions :: Conditions

record NetworkDeviceSpec =
  DHCP4 :: bool
  DHCP6 :: bool
  IPAddrs :: "string list"
  AddressesFromPools :: "TypedLocalObjectReference list"

record NetworkStatus =
  Connected :: bool
  net_IPAddrs :: "string list"
  MACAddr :: string
  NetworkName :: string

datatype VirtualMachineState =
    VirtualMachineStateNotFound
  | VirtualMachineStatePending
  | VirtualMachineStateReady

text \<open>\<open>infrav1.VirtualMachine\<close>: the VM as the backend observes it.\<close>

record VirtualMachine =
  vm_Name :: string
  vm_BiosUUID :: string
  vm_State :: VirtualMachineState
  vm_Network :: "NetworkStatus list"
  vm_VMRef :: string

record VSphereVM =
  APIVersion :: string
  Kind :: string
  Name :: string
  Namespace :: string
  UID :: string
  Labels :: "string \<rightharpoonup> string"
  Annotations :: "string \<rightharpoonup> string"
  Finalizers :: "string list"
  DeletionTimestamp :: "nat option"
  Spec_BiosUUID :: string
  Spec_Network_Devices :: "NetworkDeviceSpec list"
  Status_Ready :: bool
  Status_VMRef :: string
  Status_Network :: "NetworkStatus list"
  Status_Addresses :: "string list"
  Status_FailureReason :: "string option"
  Status_FailureMessage :: "string option"
  Status_Conditions :: Conditions

text \<open>
  The world the VM controller acts on: the address claims of the object store
  by key, and the log of the mutating calls made.
\<close>

record world =
  ipAddressClaims :: "ObjectKey \<rightharpoonup> IPAddressClaim"
  apiCalls :: "apiCall list"

text \<open>
  The collaborators of the VM reconciler, each given by what it answers.
  \<^item> \<open>IPAddressClaimName\<close> is \<open>util.IPAddressClaimName\<close> (not among the sources):
    the claim name for a VM name, a device index and a pool index.
  \<^item> \<open>GetErr\<close>: the message of the error, other than not-found, that reading
    that claim key fails with, if it fails. \<open>CreateErr\<close>, \<open>PatchErr\<close>,
    \<open>UpdateErr\<close>: the error, if any, the API server returns to that call on that
    claim key.
  \<^item> \<open>aggregate\<close> and \<open>summary\<close> are the merge functions behind
    \<open>conditions.SetAggregate\<close> and \<open>conditions.SetSummary\<close> of cluster-api: the
    condition to set, if any.
  \<^item> \<open>ReconcileVM\<close> and \<open>DestroyVM\<close> are the backend VM service
    (\<open>services.VirtualMachineService\<close>): the observed VM or an error, for
    \<open>DestroyVM\<close> with the requeue result.
  \<^item> \<open>GetClusterFromMetadata\<close>, \<open>GetClient\<close>, \<open>DeleteNode\<close>: the owning cluster
    (every read of it in one reconcile has this outcome), the error of getting
    the workload cluster's client, the error of deleting the node there.
  \<^item> The rest are the outcomes of the lookups \<open>Reconcile\<close> makes before it
    dispatches, of the feature gate and of the final patch.
\<close>

record vmReconciler =
  IPAddressClaimName :: "string \<Rightarrow> nat \<Rightarrow> nat \<Rightarrow> string"
  GetErr :: "ObjectKey \<Rightarrow> string option"
  CreateErr :: "ObjectKey \<Rightarrow> error option"
  PatchErr :: "ObjectKey \<Rightarrow> error option"
  UpdateErr :: "ObjectKey \<Rightarrow> error option"
  aggregate :: "IPAddressClaim list \<Rightarrow> Condition option"
  summary :: "Conditions \<Rightarrow> Condition option"
  ReconcileVM :: "VSphereVM \<Rightarrow> error + VirtualMachine"
  DestroyVM :: "VSphereVM \<Rightarrow> error + Result \<times> VirtualMachine"
  GetClusterFromMetadata :: "error + Cluster"
  GetClient :: "error option"
  DeleteNode :: "string \<Rightarrow> error option"
  NewHelperErr :: "error option"
  retrieveVcenterSession :: "error option"
  GetOwnerVSphereMachine :: bool
  GetVSphereClusterFromVSphereMachine :: bool
  GetOwnerMachine :: "error + Machine option"
  GetDeploymentZone :: "string \<Rightarrow> error + VSphereDeploymentZone"
  GetFailureDomainErr :: "string \<Rightarrow> error option"
  NodeAntiAffinity :: bool
  fetchClusterModuleInfo :: "error option"
  PatchVMErr :: "error option"

section \<open>The address-claim sub-reconciler\<close>

definition logCall :: "world \<Rightarrow> apiCall \<Rightarrow> world" where
  "logCall w c = w\<lparr>apiCalls := apiCalls w @ [c]\<rparr>"

definition client_Get :: "vmReconciler \<Rightarrow> world \<Rightarrow> ObjectKey \<Rightarrow> error + IPAddressClaim" where
  "client_Get r w key =
     (case GetErr r key of
        Some msg \<Rightarrow> Inl (ApiErr msg)
      | None \<Rightarrow>
          (case ipAddressClaims w key of
             None \<Rightarrow> Inl NotFoundErr
           | Some claim \<Rightarrow> Inr claim))"

datatype OperationResult =
    OperationResultNone
  | OperationResultCreated
  | OperationResultUpdated
  | OperationResultUpdatedStatus
  | OperationResultUpdatedStatusOnly

text \<open>
  \<open>controllerutil.CreateOrPatch\<close> on an address claim: the object is read; when
  it is not found the mutated object is created; when it is found the stored
  object is mutated and patched if the mutation changed it. The mutation may
  not change the key. The result is the store, the object as it is in memory
  after the call, and the operation result or the error.
\<close>

definition CreateOrPatch ::
  "vmReconciler \<Rightarrow> world \<Rightarrow> IPAddressClaim \<Rightarrow> (IPAddressClaim \<Rightarrow> IPAddressClaim) \<Rightarrow>
     world \<times> IPAddressClaim \<times> (error + OperationResult)" where
  "CreateOrPatch r w obj f =
     (let key = (claim_Namespace obj, claim_Name obj)
      in case client_Get r w key of
           Inl err \<Rightarrow>
             (if \<not> IsNotFound err then (w, obj, Inl err)
              else
                (let obj' = f obj
                 in if (claim_Namespace obj', claim_Name obj') \<noteq> key
                    then (w, obj', Inl (Errorf ''MutateFn cannot mutate object name and/or object namespace''))
                    else
                      (case CreateErr r key of
                         Some err \<Rightarrow> (logCall w (ClientCreate key), obj', Inl err)
                       | None \<Rightarrow>
                           (logCall (w\<lparr>ipAddressClaims := (ipAddressClaims w)(key \<mapsto> obj')\<rparr>)
                              (ClientCreate key),
                            obj', Inr OperationResultCreated))))
         | Inr current \<Rightarrow>
             (let obj' = f current
              in if (claim_Namespace obj', claim_Name obj') \<noteq> key
                 then (w, obj', Inl (Errorf ''MutateFn cannot mutate object name and/or object namespace''))
                 else if obj' = current then (w, obj', Inr OperationResultNone)
                 else
                   (case PatchErr r key of
                      Some err \<Rightarrow> (logCall w (ClientPatch key), obj', Inl err)
                    | None \<Rightarrow>
                        (logCall (w\<lparr>ipAddressClaims := (ipAddressClaims w)(key \<mapsto> obj')\<rparr>)
                           (ClientPatch key),
                         obj', Inr OperationResultUpdated))))"

text \<open>The closure \<open>mutateFn\<close> of \<open>createOrPatchIPAddressClaim\<close>.\<close>

definition mutateFn :: "VSphereVM \<Rightarrow> TypedLocalObjectReference \<Rightarrow> IPAddressClaim \<Rightarrow> IPAddressClaim" where
  "mutateFn vsphereVM poolRef claim =
     claim\<lparr>claim_OwnerReferences :=
              EnsureOwnerRef (claim_OwnerReferences claim)
                \<lparr>or_APIVersion = APIVersion vsphereVM, or_Kind = Kind vsphereVM,
                 or_Name = Name vsphereVM, or_UID = UID vsphereVM\<rparr>,
           claim_Finalizers := AddFinalizer (claim_Finalizers claim) IPAddressClaimFinalizer,
           claim_Labels :=
              (claim_Labels claim)(ClusterNameLabel \<mapsto> lookupLabel (Labels vsphereVM) ClusterNameLabel),
           claim_Spec_PoolRef :=
              (claim_Spec_PoolRef claim)
                \<lparr>ref_APIGroup := ref_APIGroup poolRef, ref_Kind := ref_Kind poolRef,
                 ref_Name := ref_Name poolRef\<rparr>\<rparr>"

definition newIPAddressClaim :: "string \<Rightarrow> string \<Rightarrow> IPAddressClaim" where
  "newIPAddressClaim namespace name =
     \<lparr>claim_Name = name, claim_Namespace = namespace, claim_OwnerReferences = [],
      claim_Finalizers = [], claim_Labels = Map.empty,
      claim_Spec_PoolRef = \<lparr>ref_APIGroup = None, ref_Kind = [], ref_Name = []\<rparr>,
      claim_Status_AddressRef_Name = [], claim_Status_Conditions = Map.empty\<rparr>"

text \<open>
  \<open>createOrPatchIPAddressClaim\<close>: the claim and whether it was created, or the
  error.
\<close>

definition createOrPatchIPAddressClaim ::
  "vmReconciler \<Rightarrow> world \<Rightarrow> VSphereVM \<Rightarrow> string \<Rightarrow> TypedLocalObjectReference \<Rightarrow>
     world \<times> (error + IPAddressClaim \<times> bool)" where
  "createOrPatchIPAddressClaim r w vsphereVM name poolRef =
     (case CreateOrPatch r w (newIPAddressClaim (Namespace vsphereVM) name)
             (mutateFn vsphereVM poolRef) of
        (w', claim, Inl err) \<Rightarrow> (w', Inl err)
      | (w', claim, Inr result) \<Rightarrow>
          (case result of
             OperationResultCreated \<Rightarrow> (w', Inr (claim, True))
           | OperationResultUpdated \<Rightarrow> (w', Inr (claim, False))
           | OperationResultNone \<Rightarrow> (w', Inr (claim, False))
           | OperationResultUpdatedStatus \<Rightarrow> (w', Inr (claim, False))
           | OperationResultUpdatedStatusOnly \<Rightarrow> (w', Inr (claim, False))))"

text \<open>
  The two nested loops over the devices and their pool references visit the
  triples (device index, pool index, pool reference) in this order.
\<close>

definition devicePoolRefs :: "VSphereVM \<Rightarrow> (nat \<times> nat \<times> TypedLocalObjectReference) list" where
  "devicePoolRefs vsphereVM =
     concat (map (\<lambda>(devIdx, device).
                    map (\<lambda>(poolRefIdx, poolRef). (devIdx, poolRefIdx, poolRef))
                      (enumerate 0 (AddressesFromPools device)))
               (enumerate 0 (Spec_Network_Devices vsphereVM)))"

text \<open>The local variables of \<open>reconcileIPAddressClaims\<close>.\<close>

record claimCounts =
  totalClaims :: nat
  claimsCreated :: nat
  claimsFulfilled :: nat
  claims :: "IPAddressClaim list"
  errList :: "error list"

definition initialCounts :: claimCounts where
  "initialCounts =
     \<lparr>totalClaims = 0, claimsCreated = 0, claimsFulfilled = 0, claims = [], errList = []\<rparr>"

text \<open>
  The loop of \<open>reconcileIPAddressClaims\<close>: \<open>Inl\<close> is the early return on a failed
  read, a failed create-or-patch is collected and the loop goes on.
\<close>

fun claimsLoop ::
  "vmReconciler \<Rightarrow> VSphereVM \<Rightarrow> (nat \<times> nat \<times> TypedLocalObjectReference) list \<Rightarrow>
     world \<Rightarrow> claimCounts \<Rightarrow> world \<times> (error + claimCounts)" where
  "claimsLoop r vsphereVM [] w st = (w, Inr st)"
| "claimsLoop r vsphereVM ((devIdx, poolRefIdx, poolRef) # rest) w st =
     (let st1 = st\<lparr>totalClaims := totalClaims st + 1\<rparr>;
          ipAddrClaimName = IPAddressClaimName r (Name vsphereVM) devIdx poolRefIdx;
          ipAddrClaimKey = (Namespace vsphereVM, ipAddrClaimName);
          getFailed = (case client_Get r w ipAddrClaimKey of
                         Inl err \<Rightarrow> (if IsNotFound err then None else Some err)
                       | Inr _ \<Rightarrow> None)
      in case getFailed of
           Some err \<Rightarrow> (w, Inl err)
         | None \<Rightarrow>
           (case createOrPatchIPAddressClaim r w vsphereVM ipAddrClaimName poolRef of
              (w', Inl err) \<Rightarrow>
                claimsLoop r vsphereVM rest w' (st1\<lparr>errList := errList st1 @ [err]\<rparr>)
            | (w', Inr (ipAddrClaim, created)) \<Rightarrow>
                (let st2 = (if created then st1\<lparr>claimsCreated := claimsCreated st1 + 1\<rparr> else st1);
                     st3 = (if claim_Status_AddressRef_Name ipAddrClaim \<noteq> []
                            then st2\<lparr>claimsFulfilled := claimsFulfilled st2 + 1\<rparr> else st2);
                     st4 = (if Has (claim_Status_Conditions ipAddrClaim) ReadyCondition
                            then st3\<lparr>claims := claims st3 @ [ipAddrClaim]\<rparr> else st3)
                 in claimsLoop r vsphereVM rest w' st4)))"

text \<open>\<open>conditions.SetAggregate\<close> on the address-claimed condition of the VM.\<close>

definition SetAggregate :: "vmReconciler \<Rightarrow> Conditions \<Rightarrow> ConditionType \<Rightarrow> IPAddressClaim list \<Rightarrow> Conditions" where
  "SetAggregate r conds t from =
     (case aggregate r from of None \<Rightarrow> conds | Some c \<Rightarrow> conds(t \<mapsto> c))"

text \<open>
  \<open>reconcileIPAddressClaims\<close>: the VM with its conditions as set, the store and
  the returned error.
\<close>

definition reconcileIPAddressClaims ::
  "vmReconciler \<Rightarrow> world \<Rightarrow> VSphereVM \<Rightarrow> VSphereVM \<times> world \<times> error option" where
  "reconcileIPAddressClaims r w vsphereVM =
     (case claimsLoop r vsphereVM (devicePoolRefs vsphereVM) w initialCounts of
        (w', Inl err) \<Rightarrow> (vsphereVM, w', Some err)
      | (w', Inr st) \<Rightarrow>
          (if length (errList st) > 0
           then
             (let aggregatedErr = AggregateErr (errList st)
              in (vsphereVM\<lparr>Status_Conditions :=
                      MarkFalse (Status_Conditions vsphereVM) IPAddressClaimedCondition
                        IPAddressClaimNotFoundReason ConditionSeverityError
                        (Error aggregatedErr)\<rparr>,
                  w', Some aggregatedErr))
           else if length (claims st) = totalClaims st
           then
             (vsphereVM\<lparr>Status_Conditions :=
                 SetAggregate r (Status_Conditions vsphereVM) IPAddressClaimedCondition (claims st)\<rparr>,
              w', None)
           else if totalClaims st = claimsFulfilled st
           then
             (vsphereVM\<lparr>Status_Conditions :=
                 MarkTrue (Status_Conditions vsphereVM) IPAddressClaimedCondition\<rparr>,
              w', None)
           else if claimsFulfilled st < totalClaims st \<and> claimsCreated st > 0
           then
             (vsphereVM\<lparr>Status_Conditions :=
                 MarkFalse (Status_Conditions vsphereVM) IPAddressClaimedCondition
                   IPAddressClaimsBeingCreatedReason ConditionSeverityInfo
                   (fmt_d (claimsCreated st) @ ''/'' @ fmt_d (totalClaims st) @
                    '' claims being created'')\<rparr>,
              w', None)
           else if claimsFulfilled st < totalClaims st \<and> claimsCreated st = 0
           then
             (vsphereVM\<lparr>Status_Conditions :=
                 MarkFalse (Status_Conditions vsphereVM) IPAddressClaimedCondition
                   WaitingForIPAddressReason ConditionSeverityInfo
                   (fmt_d (totalClaims st - claimsFulfilled st) @ ''/'' @ fmt_d (totalClaims st) @
                    '' claims being processed'')\<rparr>,
              w', None)
           else (vsphereVM, w', None)))"

text \<open>
  \<open>deleteIPAddressClaims\<close>: for every device and pool reference the claim is
  read; a claim that is not found is skipped; when removing the finalizer
  changed the claim, the claim is updated.
\<close>

fun deleteClaimsLoop ::
  "vmReconciler \<Rightarrow> VSphereVM \<Rightarrow> (nat \<times> nat \<times> TypedLocalObjectReference) list \<Rightarrow>
     world \<Rightarrow> world \<times> error option" where
  "deleteClaimsLoop r vsphereVM [] w = (w, None)"
| "deleteClaimsLoop r vsphereVM ((devIdx, poolRefIdx, poolRef) # rest) w =
     (let ipAddrClaimName = IPAddressClaimName r (Name vsphereVM) devIdx poolRefIdx;
          ipAddrClaimKey = (Namespace vsphereVM, ipAddrClaimName)
      in case client_Get r w ipAddrClaimKey of
           Inl err \<Rightarrow>
             (if IsNotFound err then deleteClaimsLoop r vsphereVM rest w
              else (w, Some (Wrapf ''failed to find IPAddressClaim %q to remove the finalizer'' err)))
         | Inr ipAddrClaim \<Rightarrow>
             (if RemoveFinalizerChanged (claim_Finalizers ipAddrClaim) IPAddressClaimFinalizer
              then
                (case UpdateErr r ipAddrClaimKey of
                   Some err \<Rightarrow>
                     (logCall w (ClientUpdate ipAddrClaimKey),
                      Some (Wrapf ''failed to update IPAddressClaim %q'' err))
                 | None \<Rightarrow>
                     deleteClaimsLoop r vsphereVM rest
                       (logCall
                          (w\<lparr>ipAddressClaims := (ipAddressClaims w)(ipAddrClaimKey \<mapsto>
                                ipAddrClaim\<lparr>claim_Finalizers :=
                                  RemoveFinalizer (claim_Finalizers ipAddrClaim) IPAddressClaimFinalizer\<rparr>)\<rparr>)
                          (ClientUpdate ipAddrClaimKey)))
              else deleteClaimsLoop r vsphereVM rest w))"

definition deleteIPAddressClaims :: "vmReconciler \<Rightarrow> world \<Rightarrow> VSphereVM \<Rightarrow> world \<times> error option" where
  "deleteIPAddressClaims r w vsphereVM =
     deleteClaimsLoop r vsphereVM (devicePoolRefs vsphereVM) w"

text \<open>
  The claim of a key has been released: it does not exist, or it does not carry
  the controller's claim finalizer.
\<close>

definition claimReleased :: "world \<Rightarrow> ObjectKey \<Rightarrow> bool" where
  "claimReleased w key =
     (case ipAddressClaims w key of
        None \<Rightarrow> True
      | Some claim \<Rightarrow> IPAddressClaimFinalizer \<notin> set (claim_Finalizers claim))"

text \<open>The keys \<open>deleteIPAddressClaims\<close> visits for a VM.\<close>

definition claimKeys :: "vmReconciler \<Rightarrow> VSphereVM \<Rightarrow> ObjectKey list" where
  "claimKeys r vsphereVM =
     map (\<lambda>(devIdx, poolRefIdx, poolRef).
            (Namespace vsphereVM, IPAddressClaimName r (Name vsphereVM) devIdx poolRefIdx))
       (devicePoolRefs vsphereVM)"

section \<open>The VM reconciler\<close>

text \<open>
  \<open>isWaitingForStaticIPAllocation\<close>: some device has neither DHCP nor a static
  address nor an address pool.
\<close>

definition isWaitingForStaticIPAllocation :: "VSphereVM \<Rightarrow> bool" where
  "isWaitingForStaticIPAllocation vsphereVM =
     list_ex (\<lambda>dev. \<not> DHCP4 dev \<and> \<not> DHCP6 dev \<and> length (IPAddrs dev) = 0 \<and>
                     length (AddressesFromPools dev) = 0)
       (Spec_Network_Devices vsphereVM)"

definition reconcileNetwork :: "VSphereVM \<Rightarrow> VirtualMachine \<Rightarrow> VSphereVM" where
  "reconcileNetwork vsphereVM vm =
     (let vsphereVM1 = vsphereVM\<lparr>Status_Network := vm_Network vm\<rparr>;
          ipAddrs = concat (map net_IPAddrs (Status_Network vsphereVM1))
      in vsphereVM1\<lparr>Status_Addresses := ipAddrs\<rparr>)"

text \<open>
  \<open>reconcileNormal\<close>: the VM as it is in memory after the call, the world, the
  result and the error.
\<close>

definition reconcileNormal ::
  "vmReconciler \<Rightarrow> world \<Rightarrow> VSphereVM \<Rightarrow> VSphereVM \<times> world \<times> Result \<times> error option" where
  "reconcileNormal r w vsphereVM =
     (if Status_FailureReason vsphereVM \<noteq> None \<or> Status_FailureMessage vsphereVM \<noteq> None
      then (vsphereVM, w, emptyResult, None)
      else if isWaitingForStaticIPAllocation vsphereVM
      then (vsphereVM\<lparr>Status_Conditions :=
                MarkFalse (Status_Conditions vsphereVM) VMProvisionedCondition
                  WaitingForStaticIPAllocationReason ConditionSeverityInfo []\<rparr>,
            w, emptyResult, None)
      else
        (case reconcileIPAddressClaims r w vsphereVM of
           (vsphereVM1, w1, Some err) \<Rightarrow> (vsphereVM1, w1, emptyResult, Some err)
         | (vsphereVM1, w1, None) \<Rightarrow>
             (let w2 = logCall w1 BackendReconcileVM
              in case ReconcileVM r vsphereVM1 of
                   Inl err \<Rightarrow> (vsphereVM1, w2, emptyResult, Some (Wrapf ''failed to reconcile VM'' err))
                 | Inr vm \<Rightarrow>
                     (if vm_State vm \<noteq> VirtualMachineStateReady
                      then (vsphereVM1, w2, emptyResult, None)
                      else if \<not> (vm_BiosUUID vm \<noteq> [])
                      then (vsphereVM1, w2, emptyResult,
                            Some (Errorf ''bios uuid is empty while VM is ready''))
                      else
                        (let vsphereVM2 = vsphereVM1\<lparr>Spec_BiosUUID := vm_BiosUUID vm\<rparr>;
                             vsphereVM3 =
                               (if vm_VMRef vm \<noteq> [] \<and> Status_VMRef vsphereVM2 = []
                                then vsphereVM2\<lparr>Status_VMRef := vm_VMRef vm\<rparr>
                                else vsphereVM2);
                             vsphereVM4 = reconcileNetwork vsphereVM3 vm
                         in if length (Status_Addresses vsphereVM4) = 0
                            then (vsphereVM4\<lparr>Status_Conditions :=
                                      MarkFalse (Status_Conditions vsphereVM4) VMProvisionedCondition
                                        WaitingForIPAllocationReason ConditionSeverityInfo []\<rparr>,
                                  w2, \<lparr>Requeue = False, RequeueAfter = 10 * Second\<rparr>, None)
                            else (vsphereVM4\<lparr>Status_Ready := True,
                                    Status_Conditions :=
                                      MarkTrue (Status_Conditions vsphereVM4) VMProvisionedCondition\<rparr>,
                                  w2, emptyResult, None))))))"

text \<open>
  \<open>deleteNode\<close>: the owning cluster is looked up, the client of the workload
  cluster is fetched (a locked tracker asks for a requeue), the node is deleted.
\<close>

definition deleteNode :: "vmReconciler \<Rightarrow> world \<Rightarrow> string \<Rightarrow> world \<times> Result \<times> error option" where
  "deleteNode r w name =
     (case GetClusterFromMetadata r of
        Inl err \<Rightarrow> (w, emptyResult, Some err)
      | Inr cluster \<Rightarrow>
          (case GetClient r of
             Some err \<Rightarrow>
               (if IsClusterLocked err then (w, \<lparr>Requeue = True, RequeueAfter = 0\<rparr>, None)
                else (w, emptyResult, Some err))
           | None \<Rightarrow> (logCall w (RemoteDeleteNode name), emptyResult, DeleteNode r name)))"

text \<open>\<open>vmReconciler.reconcileDelete\<close>.\<close>

definition reconcileDelete ::
  "vmReconciler \<Rightarrow> world \<Rightarrow> VSphereVM \<Rightarrow> VSphereVM \<times> world \<times> Result \<times> error option" where
  "reconcileDelete r w vsphereVM =
     (let vsphereVM1 = vsphereVM\<lparr>Status_Conditions :=
                          MarkFalse (Status_Conditions vsphereVM) VMProvisionedCondition
                            DeletingReason ConditionSeverityInfo []\<rparr>;
          w1 = logCall w BackendDestroyVM
      in case DestroyVM r vsphereVM1 of
           Inl err \<Rightarrow>
             (vsphereVM1\<lparr>Status_Conditions :=
                 MarkFalse (Status_Conditions vsphereVM1) VMProvisionedCondition
                   ''DeletionFailed'' ConditionSeverityWarning (Error err)\<rparr>,
              w1, emptyResult, Some (Wrapf ''failed to destroy VM'' err))
         | Inr (result, vm) \<Rightarrow>
             (if \<not> IsZero result then (vsphereVM1, w1, result, None)
              else if vm_State vm \<noteq> VirtualMachineStateNotFound
              then (vsphereVM1, w1, emptyResult, None)
              else
                (case deleteNode r w1 (vm_Name vm) of
                   (w2, result2, err2) \<Rightarrow>
                     (if \<not> IsZero result2 then (vsphereVM1, w2, result2, None)
                      else
                        (case deleteIPAddressClaims r w2 vsphereVM1 of
                           (w3, Some err) \<Rightarrow> (vsphereVM1, w3, emptyResult, Some err)
                         | (w3, None) \<Rightarrow>
                             (vsphereVM1\<lparr>Finalizers :=
                                 RemoveFinalizer (Finalizers vsphereVM1) VMFinalizer\<rparr>,
                              w3, emptyResult, None))))))"

text \<open>
  \<open>vmReconciler.reconcile\<close>: with the anti-affinity feature gate the cluster
  module information is fetched, and an error there stops a VM that is not
  being deleted; then the delete path or the normal path is taken.
\<close>

definition reconcile ::
  "vmReconciler \<Rightarrow> world \<Rightarrow> VSphereVM \<Rightarrow> VSphereVM \<times> world \<times> Result \<times> error option" where
  "reconcile r w vsphereVM =
     (if NodeAntiAffinity r \<and> fetchClusterModuleInfo r \<noteq> None \<and>
         DeletionTimestamp vsphereVM = None
      then (vsphereVM, w, emptyResult, fetchClusterModuleInfo r)
      else if \<not> (DeletionTimestamp vsphereVM = None)
      then reconcileDelete r w vsphereVM
      else reconcileNormal r w vsphereVM)"

text \<open>
  \<open>conditions.SetSummary\<close> with the three conditions \<open>Reconcile\<close> names: the
  summary of these conditions, if there is one, becomes the Ready condition.
\<close>

definition SetSummary :: "vmReconciler \<Rightarrow> Conditions \<Rightarrow> Conditions" where
  "SetSummary r conds =
     (case summary r (conds |` {VCenterAvailableCondition, IPAddressClaimedCondition,
                                VMProvisionedCondition}) of
        None \<Rightarrow> conds
      | Some c \<Rightarrow> conds(ReadyCondition \<mapsto> c))"

text \<open>
  The deferred function of \<open>Reconcile\<close>: the summary is set and the VM is
  patched; a failed patch is added to the returned error. The first component
  of the outcome is the VM as patched to the API server, if it was.
\<close>

definition deferredPatch ::
  "vmReconciler \<Rightarrow> VSphereVM \<times> world \<times> Result \<times> error option \<Rightarrow>
     VSphereVM option \<times> world \<times> Result \<times> error option" where
  "deferredPatch r out =
     (case out of
        (vsphereVM, w, result, reterr) \<Rightarrow>
          (let vsphereVM' = vsphereVM\<lparr>Status_Conditions := SetSummary r (Status_Conditions vsphereVM)\<rparr>
           in case PatchVMErr r of
                None \<Rightarrow> (Some vsphereVM', w, result, reterr)
              | Some err \<Rightarrow> (None, w, result, NewAggregate [reterr, Some err])))"

text \<open>
  The failure domain of the machine, when it names one: the deployment zone
  and its failure domain are read.
\<close>

definition lookupFailureDomain :: "vmReconciler \<Rightarrow> Machine \<Rightarrow> error option" where
  "lookupFailureDomain r machine =
     (case machine_Spec_FailureDomain machine of
        None \<Rightarrow> None
      | Some failureDomain \<Rightarrow>
          (case GetDeploymentZone r failureDomain of
             Inl err \<Rightarrow> Some (Wrapf ''failed to find vsphere deployment zone %s'' err)
           | Inr vsphereDeploymentZone \<Rightarrow>
               (case GetFailureDomainErr r (zone_Spec_FailureDomain vsphereDeploymentZone) of
                  Some err \<Rightarrow> Some (Wrapf ''failed to find vsphere failure domain %s'' err)
                | None \<Rightarrow> None)))"

text \<open>
  \<open>vmReconciler.Reconcile\<close>, from the outcome of reading the VSphereVM of the
  request. Before the deferred patch is set up, a return patches nothing.
\<close>

definition Reconcile ::
  "vmReconciler \<Rightarrow> world \<Rightarrow> error + VSphereVM \<Rightarrow>
     VSphereVM option \<times> world \<times> Result \<times> error option" where
  "Reconcile r w got =
     (case got of
        Inl err \<Rightarrow> (None, w, emptyResult, if IsNotFound err then None else Some err)
      | Inr vsphereVM0 \<Rightarrow>
          (case NewHelperErr r of
             Some err \<Rightarrow> (None, w, emptyResult, Some (Wrapf ''failed to init patch helper for %s %s/%s'' err))
           | None \<Rightarrow>
               (case retrieveVcenterSession r of
                  Some err \<Rightarrow> (None, w, emptyResult, Some err)
                | None \<Rightarrow>
                    (let vsphereVM = vsphereVM0\<lparr>Status_Conditions :=
                            MarkTrue (Status_Conditions vsphereVM0) VCenterAvailableCondition\<rparr>
                     in if \<not> GetOwnerVSphereMachine r then (None, w, emptyResult, None)
                        else if \<not> GetVSphereClusterFromVSphereMachine r
                        then (None, w, emptyResult, None)
                        else
                          (case GetOwnerMachine r of
                             Inl err \<Rightarrow> (None, w, emptyResult, Some err)
                           | Inr None \<Rightarrow> (None, w, emptyResult, None)
                           | Inr (Some machine) \<Rightarrow>
                               (case lookupFailureDomain r machine of
                                  Some err \<Rightarrow> (None, w, emptyResult, Some err)
                                | None \<Rightarrow>
                                    deferredPatch r
                                      (if (case GetClusterFromMetadata r of
                                             Inl err \<Rightarrow> False
                                           | Inr cluster \<Rightarrow> IsPaused cluster (Annotations vsphereVM))
                                       then (vsphereVM, w, emptyResult, None)
                                       else if DeletionTimestamp vsphereVM = None \<and>
                                               \<not> ContainsFinalizer (Finalizers vsphereVM) VMFinalizer
                                       then (vsphereVM\<lparr>Finalizers :=
                                                AddFinalizer (Finalizers vsphereVM) VMFinalizer\<rparr>,
                                             w, emptyResult, None)
                                       else reconcile r w vsphereVM)))))))"

text \<open>
  The second VM is the first one with, at most, other conditions of the given
  types.
\<close>

definition condsOnly :: "ConditionType set \<Rightarrow> VSphereVM \<Rightarrow> VSphereVM \<Rightarrow> bool" where
  "condsOnly ts vm vm' =
     (\<exists>conds. vm' = vm\<lparr>Status_Conditions := conds\<rparr> \<and>
        (\<forall>t. t \<notin> ts \<longrightarrow> conds t = Status_Conditions vm t))"

text \<open>Sample objects.\<close>

definition sampleCluster :: Cluster where
  "sampleCluster =
     \<lparr>cluster_Name = ''c1'', cluster_Namespace = ''ns'',
      cluster_Labels = Map.empty, cluster_Annotations = Map.empty,
      cluster_Spec_Paused = False\<rparr>"

definition sampleListedVM :: listedVM where
  "sampleListedVM =
     \<lparr>listed_Namespace = ''ns'', listed_Name = ''vm-0'',
      listed_Labels = [ClusterNameLabel \<mapsto> ''c1'']\<rparr>"

definition sampleZone :: VSphereDeploymentZone where
  "sampleZone =
     \<lparr>zone_Kind = ''VSphereDeploymentZone'', zone_Name = ''z1'',
      zone_Finalizers = [DeploymentZoneFinalizer], zone_DeletionTimestamp = Some 1,
      zone_Spec_FailureDomain = ''fd1''\<rparr>"

definition sampleFailureDomain :: VSphereFailureDomain where
  "sampleFailureDomain =
     \<lparr>fd_Name = ''fd1'',
      fd_OwnerReferences =
        [\<lparr>or_APIVersion = GroupVersion, or_Kind = ''VSphereDeploymentZone'',
          or_Name = ''z1'', or_UID = ''u1''\<rparr>,
         \<lparr>or_APIVersion = GroupVersion, or_Kind = ''VSphereDeploymentZone'',
          or_Name = ''z2'', or_UID = ''u2''\<rparr>]\<rparr>"

definition sampleMachine :: Machine where
  "sampleMachine =
     \<lparr>machine_Namespace = ''ns'', machine_Name = ''m1'', machine_CreationTimestamp = 5,
      machine_DeletionTimestamp = None, machine_Spec_FailureDomain = Some ''z1''\<rparr>"

text \<open>A machine of another namespace with the name of the sample machine.\<close>

definition sameNameMachine :: Machine where
  "sameNameMachine =
     \<lparr>machine_Namespace = ''ns2'', machine_Name = ''m1'', machine_CreationTimestamp = 6,
      machine_DeletionTimestamp = None, machine_Spec_FailureDomain = None\<rparr>"

definition sampleZoneClient :: "Machine list \<Rightarrow> zoneClient" where
  "sampleZoneClient machines =
     \<lparr>zc_List = Inr machines, zc_GetErr = (\<lambda>_. None), zc_NewHelperErr = (\<lambda>_. None),
      zc_PatchErr = (\<lambda>_. None), zc_DeleteErr = (\<lambda>_. None),
      MachinesAsString = (\<lambda>ms. joinStrings '', '' (map machine_Name ms))\<rparr>"

definition sampleZoneWorld :: zoneWorld where
  "sampleZoneWorld = \<lparr>failureDomains = [''fd1'' \<mapsto> sampleFailureDomain], zoneCalls = []\<rparr>"

definition emptyZoneWorld :: zoneWorld where
  "emptyZoneWorld = \<lparr>failureDomains = Map.empty, zoneCalls = []\<rparr>"

definition sampleVM :: VSphereVM where
  "sampleVM =
     \<lparr>APIVersion = GroupVersion, Kind = ''VSphereVM'', Name = ''vm'', Namespace = ''ns'',
      UID = ''uid-1'', Labels = [ClusterNameLabel \<mapsto> ''c1''], Annotations = Map.empty,
      Finalizers = [], DeletionTimestamp = None, Spec_BiosUUID = [],
      Spec_Network_Devices =
        [\<lparr>DHCP4 = True, DHCP6 = False, IPAddrs = [], AddressesFromPools = []\<rparr>],
      Status_Ready = False, Status_VMRef = [], Status_Network = [], Status_Addresses = [],
      Status_FailureReason = None, Status_FailureMessage = None,
      Status_Conditions = Map.empty\<rparr>"

definition samplePoolRef :: TypedLocalObjectReference where
  "samplePoolRef = \<lparr>ref_APIGroup = Some ''ipam.cluster.x-k8s.io'', ref_Kind = ''InClusterIPPool'',
                     ref_Name = ''pool-1''\<rparr>"

text \<open>A VM with one device that takes its address from one pool.\<close>

definition samplePoolVM :: VSphereVM where
  "samplePoolVM =
     sampleVM\<lparr>Spec_Network_Devices :=
        [\<lparr>DHCP4 = False, DHCP6 = False, IPAddrs = [], AddressesFromPools = [samplePoolRef]\<rparr>]\<rparr>"

definition sampleNetwork :: "NetworkStatus list" where
  "sampleNetwork =
     [\<lparr>Connected = True, net_IPAddrs = [''10.0.0.5''], MACAddr = ''00:00:00:00:00:01'',
       NetworkName = ''net''\<rparr>]"

text \<open>The backend's answers: the VM observed, after a destroy the VM is gone.\<close>

definition sampleBackendVM :: "string \<Rightarrow> VirtualMachineState \<Rightarrow> VirtualMachine" where
  "sampleBackendVM biosUUID state =
     \<lparr>vm_Name = ''vm'', vm_BiosUUID = biosUUID, vm_State = state,
      vm_Network = sampleNetwork, vm_VMRef = ''vm-1''\<rparr>"

definition sampleReconciler :: "(error + VirtualMachine) \<Rightarrow> (error + Result \<times> VirtualMachine) \<Rightarrow> vmReconciler" where
  "sampleReconciler reconciled destroyed =
     \<lparr>IPAddressClaimName =
        (\<lambda>vmName devIdx poolIdx. vmName @ ''-'' @ fmt_d devIdx @ ''-'' @ fmt_d poolIdx),
      GetErr = (\<lambda>_. None), CreateErr = (\<lambda>_. None), PatchErr = (\<lambda>_. None),
      UpdateErr = (\<lambda>_. None), aggregate = (\<lambda>_. None), summary = (\<lambda>_. None),
      ReconcileVM = (\<lambda>_. reconciled), DestroyVM = (\<lambda>_. destroyed),
      GetClusterFromMetadata = Inr sampleCluster, GetClient = None, DeleteNode = (\<lambda>_. None),
      NewHelperErr = None, retrieveVcenterSession = None, GetOwnerVSphereMachine = True,
      GetVSphereClusterFromVSphereMachine = True,
      GetOwnerMachine = Inr (Some (sampleMachine\<lparr>machine_Spec_FailureDomain := None\<rparr>)),
      GetDeploymentZone = (\<lambda>_. Inl NotFoundErr), GetFailureDomainErr = (\<lambda>_. None),
      NodeAntiAffinity = False, fetchClusterModuleInfo = None, PatchVMErr = None\<rparr>"

definition emptyWorld :: world where
  "emptyWorld = \<lparr>ipAddressClaims = Map.empty, apiCalls = []\<rparr>"

text \<open>A claim the allocator has resolved, and the store that holds it.\<close>

definition sampleClaim :: IPAddressClaim where
  "sampleClaim =
     \<lparr>claim_Name = ''vm-0-0'', claim_Namespace = ''ns'', claim_OwnerReferences = [],
      claim_Finalizers = [IPAddressClaimFinalizer], claim_Labels = Map.empty,
      claim_Spec_PoolRef = samplePoolRef, claim_Status_AddressRef_Name = ''ip-1'',
      claim_Status_Conditions = [ReadyCondition \<mapsto> TrueCondition]\<rparr>"

text \<open>
  A resolved claim that also carries a finalizer, a label and an owner
  reference of the allocator, and the store that holds it.
\<close>

definition allocatorClaim :: IPAddressClaim where
  "allocatorClaim =
     \<lparr>claim_Name = ''vm-0-0'', claim_Namespace = ''ns'',
      claim_OwnerReferences =
        [\<lparr>or_APIVersion = ''ipam.cluster.x-k8s.io/v1alpha1'', or_Kind = ''InClusterIPPool'',
          or_Name = ''pool-1'', or_UID = ''uid-9''\<rparr>],
      claim_Finalizers = [''ipam.cluster.x-k8s.io/ReleaseAddress''],
      claim_Labels = [''allocator'' \<mapsto> ''in-cluster''],
      claim_Spec_PoolRef = samplePoolRef, claim_Status_AddressRef_Name = ''ip-1'',
      claim_Status_Conditions = [ReadyCondition \<mapsto> TrueCondition]\<rparr>"

definition allocatorWorld :: world where
  "allocatorWorld = \<lparr>ipAddressClaims = [(''ns'', ''vm-0-0'') \<mapsto> allocatorClaim], apiCalls = []\<rparr>"

definition sampleWorld :: world where
  "sampleWorld = \<lparr>ipAddressClaims = [(''ns'', ''vm-0-0'') \<mapsto> sampleClaim], apiCalls = []\<rparr>"

text \<open>
  The sample store after the claim was released: its finalizer is gone and one
  update was made.
\<close>

definition releasedWorld :: world where
  "releasedWorld =
     \<lparr>ipAddressClaims = [(''ns'', ''vm-0-0'') \<mapsto> sampleClaim\<lparr>claim_Finalizers := []\<rparr>],
      apiCalls = [ClientUpdate (''ns'', ''vm-0-0'')]\<rparr>"

text \<open>
  A backend that reports the VM ready with hardware id \<open>h-1\<close>, and gone after a
  destroy.
\<close>

definition sampleR :: vmReconciler where
  "sampleR =
     sampleReconciler (Inr (sampleBackendVM ''h-1'' VirtualMachineStateReady))
       (Inr (emptyResult, sampleBackendVM ''h-1'' VirtualMachineStateNotFound))"

text \<open>
  The sample VM once it carries the finalizer and the hardware id \<open>h-1\<close>, and
  the sample VM marked for deletion.
\<close>

definition sampleReadyVM :: VSphereVM where
  "sampleReadyVM = sampleVM\<lparr>Finalizers := [VMFinalizer], Spec_BiosUUID := ''h-1''\<rparr>"

definition sampleDeletingVM :: VSphereVM where
  "sampleDeletingVM = sampleVM\<lparr>Finalizers := [VMFinalizer], DeletionTimestamp := Some 1\<rparr>"

text \<open>
  Backends that report the VM ready with another hardware id, ready with an
  empty hardware id, and still ready after a destroy.
\<close>

definition otherIdR :: vmReconciler where
  "otherIdR =
     sampleReconciler (Inr (sampleBackendVM ''h-2'' VirtualMachineStateReady))
       (Inr (emptyResult, sampleBackendVM ''h-2'' VirtualMachineStateNotFound))"

definition emptyIdR :: vmReconciler where
  "emptyIdR =
     sampleReconciler (Inr (sampleBackendVM [] VirtualMachineStateReady))
       (Inr (emptyResult, sampleBackendVM [] VirtualMachineStateNotFound))"

definition stillReadyR :: vmReconciler where
  "stillReadyR =
     sampleReconciler (Inr (sampleBackendVM ''h-1'' VirtualMachineStateReady))
       (Inr (emptyResult, sampleBackendVM ''h-1'' VirtualMachineStateReady))"

text \<open>The claim that is created for the sample VM with a pool.\<close>

definition createdClaim :: IPAddressClaim where
  "createdClaim = mutateFn samplePoolVM samplePoolRef (newIPAddressClaim ''ns'' ''vm-0-0'')"

section \<open>Properties of the cluster watch\<close>

lemma clusterWatchRequests_update:
  "clusterWatchRequests wfv listing (UpdateEvent oldCluster newCluster) =
     (if \<not> IsPaused newCluster (cluster_Annotations newCluster) \<and>
         (wfv = [] \<or> cluster_Labels newCluster WatchLabel = Some wfv)
      then clusterToVSphereVMs listing newCluster else [])"
  by (auto simp: clusterWatchRequests_def ResourceNotPausedAndHasFilterLabel_def IsPaused_def)

text \<open>
  C7 (as amended). The cluster watch lets an update event through exactly when
  the new cluster object is not paused, whatever the old object was (and the
  new object carries the watch-filter label, when a filter value is
  configured): such an event enqueues the key of every VSphereVM labelled with
  the cluster's name, also when the old object was not paused either; an update
  whose new object is paused enqueues nothing.
\<close>

theorem clusterWatch_update_requests:
  "clusterWatchRequests wfv listing (UpdateEvent oldCluster newCluster) =
     (if IsPaused newCluster (cluster_Annotations newCluster) then []
      else if wfv = [] \<or> cluster_Labels newCluster WatchLabel = Some wfv
      then clusterToVSphereVMs listing newCluster
      else [])"
  by (simp add: clusterWatchRequests_update)

text \<open>An update from paused to unpaused enqueues the cluster's VM.\<close>

theorem clusterWatch_update_requests_witness:
  "clusterWatchRequests [] (Inr [sampleListedVM])
     (UpdateEvent (sampleCluster\<lparr>cluster_Spec_Paused := True\<rparr>) sampleCluster)
     = [(''ns'', ''vm-0'')]"
  using clusterWatch_update_requests
    [of "[]" "Inr [sampleListedVM]" "sampleCluster\<lparr>cluster_Spec_Paused := True\<rparr>" sampleCluster]
  by (simp add: sampleCluster_def sampleListedVM_def IsPaused_def HasPaused_def
      clusterToVSphereVMs_def)

text \<open>
  C7 as stated fails: an update whose old and new cluster objects are both
  unpaused enqueues the cluster's VM.
\<close>

theorem clusterWatch_unpaused_update_counterexample:
  "\<not> IsPaused sampleCluster (cluster_Annotations sampleCluster) \<and>
   clusterWatchRequests [] (Inr [sampleListedVM]) (UpdateEvent sampleCluster sampleCluster)
     = [(''ns'', ''vm-0'')]"
  by (simp add: clusterWatchRequests_def ResourceNotPausedAndHasFilterLabel_def
      sampleCluster_def sampleListedVM_def IsPaused_def HasPaused_def clusterToVSphereVMs_def)

section \<open>Properties of the deployment zone controller\<close>

lemma set_insertMachine: "set (insertMachine m ms) = insert m (set ms)"
  by (induction ms) auto

lemma set_SortedByCreationTimestamp: "set (SortedByCreationTimestamp ms) = set ms"
  by (induction ms) (simp_all add: SortedByCreationTimestamp_def set_insertMachine)

lemma FromMachineList_distinct:
  "distinct (map machine_Name machines) \<Longrightarrow> FromMachineList machines = machines"
  by (induction machines) auto

lemma set_FromMachineList: "set (FromMachineList machines) \<subseteq> set machines"
  by (induction machines) auto

lemma ParseGroup_GroupVersion: "ParseGroup GroupVersion = Some ''infrastructure.cluster.x-k8s.io''"
  by (simp add: ParseGroup_def GroupVersion_def)

text \<open>
  When the listed machines have distinct names, an active machine that has the
  zone's name as its failure domain makes the deletion fail with the in-use
  error, whose message lists the sorted blocking machines, and leaves zone and
  store as they were.
\<close>

lemma zone_reconcileDelete_in_use:
  assumes "zc_List c = Inr machines" and "distinct (map machine_Name machines)"
    and "m \<in> set machines" and "machine_DeletionTimestamp m = None"
    and "machine_Spec_FailureDomain m = Some (zone_Name zone)"
  shows "\<exists>using. set using = {m \<in> set machines. machine_DeletionTimestamp m = None \<and>
                       machine_Spec_FailureDomain m = Some (zone_Name zone)} \<and>
           zone_reconcileDelete c w zone =
             (zone, w,
              Some (Errorf (''error deleting VSphereDeploymentZone: '' @ zone_Name zone @
                            '' is currently in use by machines: '' @ MachinesAsString c using)))"
proof -
  let ?using = "machinesUsingDeploymentZone zone machines"
  have s: "set ?using = {m \<in> set machines. machine_DeletionTimestamp m = None \<and>
                       machine_Spec_FailureDomain m = Some (zone_Name zone)}"
    using assms(2)
    by (auto simp: machinesUsingDeploymentZone_def ActiveMachines_def FromMachineList_distinct
        split: option.splits)
  with assms(3-5) have "?using \<noteq> []" by auto
  with assms(1) have "zone_reconcileDelete c w zone =
             (zone, w,
              Some (Errorf (''error deleting VSphereDeploymentZone: '' @ zone_Name zone @
                            '' is currently in use by machines: '' @
                            MachinesAsString c (SortedByCreationTimestamp ?using))))"
    by (simp add: zone_reconcileDelete_def Let_def)
  with s show ?thesis
    by (intro exI [of _ "SortedByCreationTimestamp ?using"]) (simp add: set_SortedByCreationTimestamp)
qed

text \<open>
  The failure domain is deleted only when no owner reference is left on it:
  whatever the deletion of a zone returns, a delete call is made only after the
  failure domain was read and the removal of the zone's reference left none.
\<close>

lemma zone_reconcileDelete_delete_only_if_empty:
  assumes "zone_reconcileDelete c w zone = (zone', w', err)"
    and "ClientDelete key \<in> set (zoneCalls w')" and "ClientDelete key \<notin> set (zoneCalls w)"
  shows "\<exists>failureDomain. zc_Get c w (zone_Spec_FailureDomain zone) = Inr failureDomain \<and>
           key = ([], fd_Name failureDomain) \<and>
           RemoveOwnerRef (fd_OwnerReferences failureDomain) (zoneOwnerRef zone) = []"
proof (cases "zc_Get c w (zone_Spec_FailureDomain zone)")
  case (Inl e)
  with assms show ?thesis
    by (auto simp: zone_reconcileDelete_def Let_def split: sum.splits if_splits)
next
  case (Inr failureDomain)
  with assms show ?thesis
    by (auto simp: zone_reconcileDelete_def Let_def updateOwnerReferences_def zc_Delete_def
        split: sum.splits if_splits option.splits prod.splits)
qed

text \<open>
  The owner references left on the failure domain: every reference that does
  not point to the zone is kept, and none is added.
\<close>

lemma RemoveOwnerRef_keeps:
  "\<not> referSameObject r inputRef \<Longrightarrow> r \<in> set refs \<Longrightarrow> r \<in> set (RemoveOwnerRef refs inputRef)"
  by (induction refs) auto

lemma RemoveOwnerRef_subset: "set (RemoveOwnerRef refs inputRef) \<subseteq> set refs"
  by (induction refs) auto

lemma RemoveOwnerRef_length:
  "\<exists>r \<in> set refs. referSameObject r inputRef \<Longrightarrow>
     Suc (length (RemoveOwnerRef refs inputRef)) = length refs"
  by (induction refs) auto

text \<open>
  When no machine of the collection blocks the zone, the failure domain exists
  and the calls on it do not fail, the deletion succeeds and removes the
  finalizer; the failure domain loses the first reference to the zone, and is
  deleted exactly when no reference is left.
\<close>

lemma zone_reconcileDelete_unreferenced:
  assumes "zc_List c = Inr machines" and "machinesUsingDeploymentZone zone machines = []"
    and "failureDomains w (fd_Name fd) = Some fd" and "zone_Spec_FailureDomain zone = fd_Name fd"
    and "zc_GetErr c (fd_Name fd) = None" and "zc_NewHelperErr c (fd_Name fd) = None"
    and "zc_PatchErr c (fd_Name fd) = None" and "zc_DeleteErr c (fd_Name fd) = None"
  shows "zone_reconcileDelete c w zone =
           (zone\<lparr>zone_Finalizers := RemoveFinalizer (zone_Finalizers zone) DeploymentZoneFinalizer\<rparr>,
            w\<lparr>failureDomains := (failureDomains w)(fd_Name fd :=
                  (if RemoveOwnerRef (fd_OwnerReferences fd) (zoneOwnerRef zone) = [] then None
                   else Some (fd\<lparr>fd_OwnerReferences :=
                                 RemoveOwnerRef (fd_OwnerReferences fd) (zoneOwnerRef zone)\<rparr>))),
              zoneCalls := zoneCalls w @ [ClientPatch ([], fd_Name fd)] @
                  (if RemoveOwnerRef (fd_OwnerReferences fd) (zoneOwnerRef zone) = []
                   then [ClientDelete ([], fd_Name fd)] else [])\<rparr>,
            None)"
proof -
  have g: "zc_Get c w (fd_Name fd) = Inr fd"
    using assms(3,5) by (simp add: zc_Get_def)
  show ?thesis
    using assms(1,2,3,6,7,8) g
    by (simp add: zone_reconcileDelete_def updateOwnerReferences_def zc_Delete_def Let_def assms(4))
qed

lemma sample_referSameObject:
  "referSameObject \<lparr>or_APIVersion = GroupVersion, or_Kind = ''VSphereDeploymentZone'',
          or_Name = ''z1'', or_UID = ''u1''\<rparr> (zoneOwnerRef sampleZone)"
  by (simp add: referSameObject_def zoneOwnerRef_def sampleZone_def ParseGroup_GroupVersion)

text \<open>
  C6. The deletion guard misses an active machine that uses the zone when a
  machine of the same name is listed after it. The machine \<open>ns/m1\<close> is active
  and has the zone \<open>z1\<close> as its failure domain; the machine \<open>ns2/m1\<close>, of another
  namespace and with no failure domain, replaces it in the machine collection,
  which is keyed by name alone. The deletion of \<open>z1\<close> then returns no error: it
  removes the zone's owner reference from the failure domain and removes the
  zone's finalizer, where a zone in use is to be kept with the in-use error.
\<close>

theorem zone_reconcileDelete_shadowed_machine:
  "sampleMachine \<in> set [sampleMachine, sameNameMachine] \<and>
   ActiveMachines sampleMachine \<and>
   machine_Spec_FailureDomain sampleMachine = Some (zone_Name sampleZone) \<and>
   zone_Finalizers sampleZone = [DeploymentZoneFinalizer] \<and>
   zone_reconcileDelete (sampleZoneClient [sampleMachine, sameNameMachine]) sampleZoneWorld sampleZone =
     (sampleZone\<lparr>zone_Finalizers := []\<rparr>,
      \<lparr>failureDomains = [''fd1'' \<mapsto> sampleFailureDomain\<lparr>fd_OwnerReferences :=
           [\<lparr>or_APIVersion = GroupVersion, or_Kind = ''VSphereDeploymentZone'',
             or_Name = ''z2'', or_UID = ''u2''\<rparr>]\<rparr>],
       zoneCalls = [ClientPatch ([], ''fd1'')]\<rparr>, None)"
proof -
  have u: "machinesUsingDeploymentZone sampleZone [sampleMachine, sameNameMachine] = []"
    by (simp add: machinesUsingDeploymentZone_def sampleMachine_def sameNameMachine_def)
  have "zone_reconcileDelete (sampleZoneClient [sampleMachine, sameNameMachine]) sampleZoneWorld sampleZone =
     (sampleZone\<lparr>zone_Finalizers := []\<rparr>,
      \<lparr>failureDomains = [''fd1'' \<mapsto> sampleFailureDomain\<lparr>fd_OwnerReferences :=
           [\<lparr>or_APIVersion = GroupVersion, or_Kind = ''VSphereDeploymentZone'',
             or_Name = ''z2'', or_UID = ''u2''\<rparr>]\<rparr>],
       zoneCalls = [ClientPatch ([], ''fd1'')]\<rparr>, None)"
    using zone_reconcileDelete_unreferenced [of "sampleZoneClient [sampleMachine, sameNameMachine]"
        "[sampleMachine, sameNameMachine]" sampleZone sampleZoneWorld sampleFailureDomain]
      u sample_referSameObject
    by (simp add: sampleZoneClient_def sampleZoneWorld_def sampleFailureDomain_def sampleZone_def
        RemoveFinalizer_def)
  then show ?thesis
    by (simp add: ActiveMachines_def sampleMachine_def sampleZone_def)
qed

text \<open>
  C10. On the delete path of a zone, when reading the failure domain answers
  not-found (the machine list was read and no active machine uses the zone, so
  that the read is reached), the zone's finalizer is removed, nothing is
  written and the reconcile returns no error.
\<close>

theorem zone_reconcileDelete_notFound:
  assumes "zc_List c = Inr machines"
    and "machinesUsingDeploymentZone zone machines = []"
    and "zc_Get c w (zone_Spec_FailureDomain zone) = Inl err"
    and "IsNotFound err"
  shows "zone_reconcileDelete c w zone =
           (zone\<lparr>zone_Finalizers := RemoveFinalizer (zone_Finalizers zone) DeploymentZoneFinalizer\<rparr>,
            w, None) \<and>
         DeploymentZoneFinalizer \<notin> set (RemoveFinalizer (zone_Finalizers zone) DeploymentZoneFinalizer)"
  using assms by (simp add: zone_reconcileDelete_def RemoveFinalizer_def)

theorem zone_reconcileDelete_notFound_witness:
  "zone_reconcileDelete (sampleZoneClient []) emptyZoneWorld sampleZone =
     (sampleZone\<lparr>zone_Finalizers := []\<rparr>, emptyZoneWorld, None)"
  using zone_reconcileDelete_notFound [of "sampleZoneClient []" "[]" sampleZone emptyZoneWorld NotFoundErr]
  by (simp add: sampleZoneClient_def machinesUsingDeploymentZone_def zc_Get_def emptyZoneWorld_def
      sampleZone_def RemoveFinalizer_def)

section \<open>Properties of the address-claim sub-reconciler\<close>

lemma sample_devicePoolRefs: "devicePoolRefs samplePoolVM = [(0, 0, samplePoolRef)]"
  by (simp add: devicePoolRefs_def samplePoolVM_def sampleVM_def)

lemma sample_createOrPatch:
  "createOrPatchIPAddressClaim (sampleReconciler a b) emptyWorld samplePoolVM ''vm-0-0'' samplePoolRef =
     (\<lparr>ipAddressClaims = [(''ns'', ''vm-0-0'') \<mapsto> createdClaim], apiCalls = [ClientCreate (''ns'', ''vm-0-0'')]\<rparr>,
      Inr (createdClaim, True))"
  by (simp add: createOrPatchIPAddressClaim_def CreateOrPatch_def client_Get_def sampleReconciler_def
      emptyWorld_def samplePoolVM_def sampleVM_def newIPAddressClaim_def Let_def mutateFn_def logCall_def createdClaim_def)

lemma sampleR_claimName': "IPAddressClaimName sampleR ''vm'' 0 0 = ''vm-0-0''"
  by (simp add: sampleR_def sampleReconciler_def digitChar_def)

lemma sampleR_faults:
  "GetErr sampleR key = None" "CreateErr sampleR key = None" "PatchErr sampleR key = None"
  "UpdateErr sampleR key = None"
  by (simp_all add: sampleR_def sampleReconciler_def)

lemma samplePoolVM_Namespace: "Namespace samplePoolVM = ''ns''" "Name samplePoolVM = ''vm''"
  by (simp_all add: samplePoolVM_def sampleVM_def)

lemma client_Get_NotFound:
  "client_Get r w key = Inl err \<Longrightarrow> IsNotFound err \<Longrightarrow> ipAddressClaims w key = None"
  by (auto simp: client_Get_def split: option.splits)

lemma client_Get_Inr:
  "client_Get r w key = Inr claim \<Longrightarrow> ipAddressClaims w key = Some claim"
  by (auto simp: client_Get_def split: option.splits)

lemma CreateOrPatch_cases:
  assumes "CreateOrPatch r w obj f = (w', obj', res)"
  shows "ipAddressClaims w' = ipAddressClaims w \<or>
         (ipAddressClaims w (claim_Namespace obj, claim_Name obj) = None \<and>
          ipAddressClaims w' = (ipAddressClaims w)((claim_Namespace obj, claim_Name obj) \<mapsto> f obj)) \<or>
         (\<exists>current. ipAddressClaims w (claim_Namespace obj, claim_Name obj) = Some current \<and>
          ipAddressClaims w' = (ipAddressClaims w)((claim_Namespace obj, claim_Name obj) \<mapsto> f current))"
proof (cases "client_Get r w (claim_Namespace obj, claim_Name obj)")
  case (Inl err)
  show ?thesis
  proof (cases "IsNotFound err")
    case True
    with Inl have "ipAddressClaims w (claim_Namespace obj, claim_Name obj) = None"
      by (rule client_Get_NotFound)
    with assms Inl True show ?thesis
      by (auto simp: CreateOrPatch_def Let_def logCall_def split: if_splits option.splits)
  next
    case False
    with assms Inl show ?thesis
      by (auto simp: CreateOrPatch_def Let_def)
  qed
next
  case (Inr current)
  then have "ipAddressClaims w (claim_Namespace obj, claim_Name obj) = Some current"
    by (rule client_Get_Inr)
  with assms Inr show ?thesis
    by (auto simp: CreateOrPatch_def Let_def logCall_def split: if_splits option.splits)
qed

lemma createOrPatchIPAddressClaim_cases:
  assumes "createOrPatchIPAddressClaim r w vsphereVM name poolRef = (w', res)"
  shows "ipAddressClaims w' = ipAddressClaims w \<or>
         (ipAddressClaims w (Namespace vsphereVM, name) = None \<and>
          ipAddressClaims w' = (ipAddressClaims w)((Namespace vsphereVM, name) \<mapsto>
             mutateFn vsphereVM poolRef (newIPAddressClaim (Namespace vsphereVM) name))) \<or>
         (\<exists>current. ipAddressClaims w (Namespace vsphereVM, name) = Some current \<and>
          ipAddressClaims w' = (ipAddressClaims w)((Namespace vsphereVM, name) \<mapsto>
             mutateFn vsphereVM poolRef current))"
proof -
  obtain w1 obj1 res1 where c: "CreateOrPatch r w (newIPAddressClaim (Namespace vsphereVM) name)
             (mutateFn vsphereVM poolRef) = (w1, obj1, res1)"
    by (metis prod_cases3)
  with assms have "w' = w1"
    by (auto simp: createOrPatchIPAddressClaim_def split: sum.splits OperationResult.splits)
  with CreateOrPatch_cases [OF c] show ?thesis
    by (simp add: newIPAddressClaim_def)
qed

lemma EnsureOwnerRef_subset: "set (EnsureOwnerRef refs ref) \<subseteq> insert ref (set refs)"
  by (induction refs) auto

lemma EnsureOwnerRef_keeps:
  "r \<in> set refs \<Longrightarrow> \<not> referSameObject r ref \<Longrightarrow> r \<in> set (EnsureOwnerRef refs ref)"
  by (induction refs) auto

lemma EnsureOwnerRef_cases:
  "EnsureOwnerRef refs ref = refs @ [ref] \<or>
   (\<exists>i. i < length refs \<and> referSameObject (refs ! i) ref \<and> EnsureOwnerRef refs ref = refs[i := ref])"
proof (induction refs)
  case Nil
  show ?case by simp
next
  case (Cons r rs)
  show ?case
  proof (cases "referSameObject r ref")
    case True
    then have "0 < length (r # rs) \<and> referSameObject ((r # rs) ! 0) ref \<and>
               EnsureOwnerRef (r # rs) ref = (r # rs)[0 := ref]"
      by simp
    then show ?thesis by blast
  next
    case False
    from Cons.IH show ?thesis
    proof
      assume "EnsureOwnerRef rs ref = rs @ [ref]"
      with False show ?thesis by simp
    next
      assume "\<exists>i. i < length rs \<and> referSameObject (rs ! i) ref \<and> EnsureOwnerRef rs ref = rs[i := ref]"
      then obtain i where "i < length rs" "referSameObject (rs ! i) ref"
        "EnsureOwnerRef rs ref = rs[i := ref]" by blast
      with False have "Suc i < length (r # rs) \<and> referSameObject ((r # rs) ! Suc i) ref \<and>
               EnsureOwnerRef (r # rs) ref = (r # rs)[Suc i := ref]"
        by simp
      then show ?thesis by blast
    qed
  qed
qed

lemma EnsureOwnerRef_mem: "ref \<in> set (EnsureOwnerRef refs ref)"
  by (induction refs) auto

text \<open>
  C8. Whatever the create-or-patch of an address claim returns, it touches no
  other claim of the store, and a claim that exists under the key still exists
  afterwards and differs from what it was at most in its owner references,
  finalizers, labels and pool reference. The resolved address reference and
  the conditions, which the allocator owns, are what they were. Of the four
  fields: the finalizers are what they were, or those with the controller's
  claim finalizer appended; every label other than the cluster-name label is
  what it was; every owner reference that does not point to the VM is kept and
  no reference but the VM's is added, the list being what it was, or that with
  the VM's reference appended, or that with one reference to the VM replaced
  in place by the VM's reference; the pool reference is what it was or the one
  asked for.
\<close>

theorem createOrPatchIPAddressClaim_frame:
  assumes "createOrPatchIPAddressClaim r w vsphereVM name poolRef = (w', res)"
  shows "(\<forall>key. key \<noteq> (Namespace vsphereVM, name) \<longrightarrow>
            ipAddressClaims w' key = ipAddressClaims w key) \<and>
         (\<forall>current. ipAddressClaims w (Namespace vsphereVM, name) = Some current \<longrightarrow>
            (\<exists>claim.
               ipAddressClaims w' (Namespace vsphereVM, name) = Some claim \<and>
               claim = current\<lparr>claim_OwnerReferences := claim_OwnerReferences claim,
                                claim_Finalizers := claim_Finalizers claim,
                                claim_Labels := claim_Labels claim,
                                claim_Spec_PoolRef := claim_Spec_PoolRef claim\<rparr> \<and>
               claim_Status_AddressRef_Name claim = claim_Status_AddressRef_Name current \<and>
               claim_Status_Conditions claim = claim_Status_Conditions current \<and>
               (claim_Finalizers claim = claim_Finalizers current \<or>
                claim_Finalizers claim = claim_Finalizers current @ [IPAddressClaimFinalizer]) \<and>
               (\<forall>label. label \<noteq> ClusterNameLabel \<longrightarrow>
                  claim_Labels claim label = claim_Labels current label) \<and>
               (\<forall>ref \<in> set (claim_OwnerReferences current).
                  \<not> referSameObject ref
                       \<lparr>or_APIVersion = APIVersion vsphereVM, or_Kind = Kind vsphereVM,
                        or_Name = Name vsphereVM, or_UID = UID vsphereVM\<rparr> \<longrightarrow>
                  ref \<in> set (claim_OwnerReferences claim)) \<and>
               set (claim_OwnerReferences claim) \<subseteq>
                 insert \<lparr>or_APIVersion = APIVersion vsphereVM, or_Kind = Kind vsphereVM,
                         or_Name = Name vsphereVM, or_UID = UID vsphereVM\<rparr>
                   (set (claim_OwnerReferences current)) \<and>
               (claim_OwnerReferences claim = claim_OwnerReferences current \<or>
                claim_OwnerReferences claim = claim_OwnerReferences current @
                  [\<lparr>or_APIVersion = APIVersion vsphereVM, or_Kind = Kind vsphereVM,
                    or_Name = Name vsphereVM, or_UID = UID vsphereVM\<rparr>] \<or>
                (\<exists>i. i < length (claim_OwnerReferences current) \<and>
                   referSameObject (claim_OwnerReferences current ! i)
                     \<lparr>or_APIVersion = APIVersion vsphereVM, or_Kind = Kind vsphereVM,
                      or_Name = Name vsphereVM, or_UID = UID vsphereVM\<rparr> \<and>
                   claim_OwnerReferences claim = (claim_OwnerReferences current)
                     [i := \<lparr>or_APIVersion = APIVersion vsphereVM, or_Kind = Kind vsphereVM,
                            or_Name = Name vsphereVM, or_UID = UID vsphereVM\<rparr>])) \<and>
               (claim_Spec_PoolRef claim = claim_Spec_PoolRef current \<or>
                claim_Spec_PoolRef claim = poolRef)))"
proof (intro conjI allI impI)
  fix key :: ObjectKey
  assume "key \<noteq> (Namespace vsphereVM, name)"
  with createOrPatchIPAddressClaim_cases [OF assms]
  show "ipAddressClaims w' key = ipAddressClaims w key"
    by auto
next
  fix current
  assume cur: "ipAddressClaims w (Namespace vsphereVM, name) = Some current"
  let ?vmRef = "\<lparr>or_APIVersion = APIVersion vsphereVM, or_Kind = Kind vsphereVM,
                        or_Name = Name vsphereVM, or_UID = UID vsphereVM\<rparr>"
  let ?P = "\<lambda>claim.
               ipAddressClaims w' (Namespace vsphereVM, name) = Some claim \<and>
               claim = current\<lparr>claim_OwnerReferences := claim_OwnerReferences claim,
                                claim_Finalizers := claim_Finalizers claim,
                                claim_Labels := claim_Labels claim,
                                claim_Spec_PoolRef := claim_Spec_PoolRef claim\<rparr> \<and>
               claim_Status_AddressRef_Name claim = claim_Status_AddressRef_Name current \<and>
               claim_Status_Conditions claim = claim_Status_Conditions current \<and>
               (claim_Finalizers claim = claim_Finalizers current \<or>
                claim_Finalizers claim = claim_Finalizers current @ [IPAddressClaimFinalizer]) \<and>
               (\<forall>label. label \<noteq> ClusterNameLabel \<longrightarrow>
                  claim_Labels claim label = claim_Labels current label) \<and>
               (\<forall>ref \<in> set (claim_OwnerReferences current).
                  \<not> referSameObject ref ?vmRef \<longrightarrow> ref \<in> set (claim_OwnerReferences claim)) \<and>
               set (claim_OwnerReferences claim) \<subseteq> insert ?vmRef (set (claim_OwnerReferences current)) \<and>
               (claim_OwnerReferences claim = claim_OwnerReferences current \<or>
                claim_OwnerReferences claim = claim_OwnerReferences current @ [?vmRef] \<or>
                (\<exists>i. i < length (claim_OwnerReferences current) \<and>
                   referSameObject (claim_OwnerReferences current ! i) ?vmRef \<and>
                   claim_OwnerReferences claim = (claim_OwnerReferences current)[i := ?vmRef])) \<and>
               (claim_Spec_PoolRef claim = claim_Spec_PoolRef current \<or>
                claim_Spec_PoolRef claim = poolRef)"
  from createOrPatchIPAddressClaim_cases [OF assms] cur
  consider "ipAddressClaims w' (Namespace vsphereVM, name) = Some current"
    | "ipAddressClaims w' (Namespace vsphereVM, name) = Some (mutateFn vsphereVM poolRef current)"
    by auto
  then show "\<exists>claim. ?P claim"
  proof cases
    case 1
    then have c: "?P current" by auto
    show ?thesis by (rule exI [where x = current]) (rule c)
  next
    case 2
    have p: "claim_Spec_PoolRef (mutateFn vsphereVM poolRef current) = poolRef"
      by (simp add: mutateFn_def)
    have f: "claim_Finalizers (mutateFn vsphereVM poolRef current) = claim_Finalizers current \<or>
             claim_Finalizers (mutateFn vsphereVM poolRef current) =
               claim_Finalizers current @ [IPAddressClaimFinalizer]"
      by (simp add: mutateFn_def AddFinalizer_def)
    have l: "\<forall>label. label \<noteq> ClusterNameLabel \<longrightarrow>
                  claim_Labels (mutateFn vsphereVM poolRef current) label = claim_Labels current label"
      by (simp add: mutateFn_def)
    have o: "claim_OwnerReferences (mutateFn vsphereVM poolRef current) =
               EnsureOwnerRef (claim_OwnerReferences current) ?vmRef"
      by (simp add: mutateFn_def)
    have s: "claim_Status_AddressRef_Name (mutateFn vsphereVM poolRef current) =
               claim_Status_AddressRef_Name current"
      "claim_Status_Conditions (mutateFn vsphereVM poolRef current) = claim_Status_Conditions current"
      "mutateFn vsphereVM poolRef current =
         current\<lparr>claim_OwnerReferences := claim_OwnerReferences (mutateFn vsphereVM poolRef current),
                 claim_Finalizers := claim_Finalizers (mutateFn vsphereVM poolRef current),
                 claim_Labels := claim_Labels (mutateFn vsphereVM poolRef current),
                 claim_Spec_PoolRef := claim_Spec_PoolRef (mutateFn vsphereVM poolRef current)\<rparr>"
      by (simp_all add: mutateFn_def)
    have k: "\<forall>ref \<in> set (claim_OwnerReferences current).
                  \<not> referSameObject ref ?vmRef \<longrightarrow>
                  ref \<in> set (claim_OwnerReferences (mutateFn vsphereVM poolRef current))"
      unfolding o by (blast intro: EnsureOwnerRef_keeps)
    have u: "set (claim_OwnerReferences (mutateFn vsphereVM poolRef current)) \<subseteq>
               insert ?vmRef (set (claim_OwnerReferences current))"
      unfolding o by (rule EnsureOwnerRef_subset)
    have q: "claim_OwnerReferences (mutateFn vsphereVM poolRef current) = claim_OwnerReferences current \<or>
             claim_OwnerReferences (mutateFn vsphereVM poolRef current) =
               claim_OwnerReferences current @ [?vmRef] \<or>
             (\<exists>i. i < length (claim_OwnerReferences current) \<and>
                referSameObject (claim_OwnerReferences current ! i) ?vmRef \<and>
                claim_OwnerReferences (mutateFn vsphereVM poolRef current) =
                  (claim_OwnerReferences current)[i := ?vmRef])"
      unfolding o using EnsureOwnerRef_cases [of "claim_OwnerReferences current" ?vmRef] by blast
    from p have p': "claim_Spec_PoolRef (mutateFn vsphereVM poolRef current) = claim_Spec_PoolRef current \<or>
                claim_Spec_PoolRef (mutateFn vsphereVM poolRef current) = poolRef" ..
    have c: "?P (mutateFn vsphereVM poolRef current)"
      by (intro conjI) (rule 2 s f l k u q p')+
    show ?thesis by (rule exI [where x = "mutateFn vsphereVM poolRef current"]) (rule c)
  qed
qed

lemma allocator_createOrPatch:
  "createOrPatchIPAddressClaim sampleR allocatorWorld samplePoolVM ''vm-0-0'' samplePoolRef =
     (\<lparr>ipAddressClaims = [(''ns'', ''vm-0-0'') \<mapsto> mutateFn samplePoolVM samplePoolRef allocatorClaim],
       apiCalls = [ClientPatch (''ns'', ''vm-0-0'')]\<rparr>,
      Inr (mutateFn samplePoolVM samplePoolRef allocatorClaim, False))"
proof -
  have g: "client_Get sampleR
             \<lparr>ipAddressClaims = [(''ns'', ''vm-0-0'') \<mapsto> allocatorClaim], apiCalls = []\<rparr>
             (''ns'', ''vm-0-0'') = Inr allocatorClaim"
    by (simp add: client_Get_def sampleR_faults)
  have k: "claim_Namespace (mutateFn samplePoolVM samplePoolRef allocatorClaim) = ''ns''"
    "claim_Name (mutateFn samplePoolVM samplePoolRef allocatorClaim) = ''vm-0-0''"
    by (simp_all add: mutateFn_def allocatorClaim_def)
  have "claim_Finalizers (mutateFn samplePoolVM samplePoolRef allocatorClaim) \<noteq>
          claim_Finalizers allocatorClaim"
    by (simp add: mutateFn_def allocatorClaim_def AddFinalizer_def IPAddressClaimFinalizer_def)
  then have n: "mutateFn samplePoolVM samplePoolRef allocatorClaim \<noteq> allocatorClaim"
    by auto
  show ?thesis
    by (simp add: createOrPatchIPAddressClaim_def CreateOrPatch_def newIPAddressClaim_def
        samplePoolVM_Namespace g k n sampleR_faults logCall_def allocatorWorld_def Let_def)
qed

text \<open>
  A resolved claim that carries a finalizer, a label and an owner reference of
  the allocator keeps them, its address and its Ready condition through a
  create-or-patch that adds the controller's finalizer and owner reference.
\<close>

theorem createOrPatchIPAddressClaim_frame_witness:
  "map_option
     (\<lambda>claim. (claim_Status_AddressRef_Name claim, claim_Status_Conditions claim ReadyCondition,
               claim_Finalizers claim, claim_Labels claim ''allocator'',
               map or_Name (claim_OwnerReferences claim)))
     (ipAddressClaims (fst (createOrPatchIPAddressClaim sampleR allocatorWorld samplePoolVM ''vm-0-0''
        samplePoolRef)) (''ns'', ''vm-0-0'')) =
   Some (''ip-1'', Some TrueCondition,
         [''ipam.cluster.x-k8s.io/ReleaseAddress'', IPAddressClaimFinalizer],
         Some ''in-cluster'', [''pool-1'', ''vm''])"
proof -
  let ?out = "createOrPatchIPAddressClaim sampleR allocatorWorld samplePoolVM ''vm-0-0'' samplePoolRef"
  have "?out = (fst ?out, snd ?out)" by simp
  note frame = createOrPatchIPAddressClaim_frame [OF this]
  have cur: "ipAddressClaims allocatorWorld (Namespace samplePoolVM, ''vm-0-0'') = Some allocatorClaim"
    by (simp add: allocatorWorld_def samplePoolVM_Namespace)
  from frame cur obtain claim where
    c: "ipAddressClaims (fst ?out) (''ns'', ''vm-0-0'') = Some claim"
    and a: "claim_Status_AddressRef_Name claim = claim_Status_AddressRef_Name allocatorClaim"
      "claim_Status_Conditions claim = claim_Status_Conditions allocatorClaim"
    and l: "\<forall>label. label \<noteq> ClusterNameLabel \<longrightarrow>
                  claim_Labels claim label = claim_Labels allocatorClaim label"
    unfolding samplePoolVM_Namespace by blast
  have e: "claim = mutateFn samplePoolVM samplePoolRef allocatorClaim"
    using c by (simp add: allocator_createOrPatch)
  have ne: "''allocator'' \<noteq> ClusterNameLabel" by (simp add: ClusterNameLabel_def)
  have pg: "ParseGroup ''ipam.cluster.x-k8s.io/v1alpha1'' = Some ''ipam.cluster.x-k8s.io''"
    by (simp add: ParseGroup_def)
  have f: "claim_Finalizers claim = [''ipam.cluster.x-k8s.io/ReleaseAddress'', IPAddressClaimFinalizer]"
    "map or_Name (claim_OwnerReferences claim) = [''pool-1'', ''vm'']"
    unfolding e
    by (simp_all add: mutateFn_def allocatorClaim_def AddFinalizer_def IPAddressClaimFinalizer_def
        referSameObject_def samplePoolVM_def sampleVM_def pg ParseGroup_GroupVersion)
  from l ne have "claim_Labels claim ''allocator'' = claim_Labels allocatorClaim ''allocator''"
    by blast
  with c a f show ?thesis by (simp add: allocatorClaim_def)
qed

lemma RemoveFinalizerChanged_iff: "RemoveFinalizerChanged fs f = (f \<in> set fs)"
proof -
  have "length (filter (\<lambda>g. g \<noteq> f) fs) + length (filter (\<lambda>g. \<not> g \<noteq> f) fs) = length fs"
    by (rule sum_length_filter_compl)
  then have "(length (filter (\<lambda>g. g \<noteq> f) fs) = length fs) = (filter (\<lambda>g. \<not> g \<noteq> f) fs = [])"
    by auto
  then have "(length (filter (\<lambda>g. g \<noteq> f) fs) = length fs) = (\<forall>g \<in> set fs. g \<noteq> f)"
    by (simp add: filter_empty_conv)
  then show ?thesis
    by (auto simp: RemoveFinalizerChanged_def RemoveFinalizer_def)
qed

lemma not_in_RemoveFinalizer: "f \<notin> set (RemoveFinalizer fs f)"
  by (simp add: RemoveFinalizer_def)

lemma deleteClaimsLoop_released_mono:
  "deleteClaimsLoop r vsphereVM ps w = (w', e) \<Longrightarrow> claimReleased w key \<Longrightarrow> claimReleased w' key"
proof (induction ps arbitrary: w)
  case Nil
  then show ?case by simp
next
  case (Cons p ps)
  obtain devIdx poolRefIdx poolRef where p: "p = (devIdx, poolRefIdx, poolRef)"
    by (cases p) auto
  let ?k = "(Namespace vsphereVM, IPAddressClaimName r (Name vsphereVM) devIdx poolRefIdx)"
  show ?case
  proof (cases "client_Get r w ?k")
    case (Inl err)
    with Cons p show ?thesis
      by (auto simp: Let_def split: if_splits)
  next
    case (Inr claim)
    show ?thesis
    proof (cases "RemoveFinalizerChanged (claim_Finalizers claim) IPAddressClaimFinalizer")
      case False
      with Cons p Inr show ?thesis by (auto simp: Let_def)
    next
      case True
      show ?thesis
      proof (cases "UpdateErr r ?k")
        case (Some err)
        with Cons.prems p Inr True show ?thesis
          by (auto simp: Let_def logCall_def claimReleased_def)
      next
        case None
        let ?w1 = "logCall
                          (w\<lparr>ipAddressClaims := (ipAddressClaims w)(?k \<mapsto>
                                claim\<lparr>claim_Finalizers :=
                                  RemoveFinalizer (claim_Finalizers claim) IPAddressClaimFinalizer\<rparr>)\<rparr>)
                          (ClientUpdate ?k)"
        from Cons.prems(1) p Inr True None
        have l: "deleteClaimsLoop r vsphereVM ps ?w1 = (w', e)"
          by (simp add: Let_def)
        from Cons.prems(2) have "claimReleased ?w1 key"
          by (auto simp: claimReleased_def logCall_def not_in_RemoveFinalizer split: option.splits)
        with Cons.IH [OF l] show ?thesis .
      qed
    qed
  qed
qed

lemma deleteClaimsLoop_releases:
  "deleteClaimsLoop r vsphereVM ps w = (w', None) \<Longrightarrow> (devIdx, poolRefIdx, poolRef) \<in> set ps \<Longrightarrow>
   claimReleased w' (Namespace vsphereVM, IPAddressClaimName r (Name vsphereVM) devIdx poolRefIdx)"
proof (induction ps arbitrary: w)
  case Nil
  then show ?case by simp
next
  case (Cons p ps)
  obtain d i q where p: "p = (d, i, q)"
    by (cases p) auto
  let ?k = "(Namespace vsphereVM, IPAddressClaimName r (Name vsphereVM) d i)"
  let ?key = "(Namespace vsphereVM, IPAddressClaimName r (Name vsphereVM) devIdx poolRefIdx)"
  show ?case
  proof (cases "client_Get r w ?k")
    case (Inl err)
    with Cons.prems(1) p have nf: "IsNotFound err" and l: "deleteClaimsLoop r vsphereVM ps w = (w', None)"
      by (auto simp: Let_def split: if_splits)
    show ?thesis
    proof (cases "(devIdx, poolRefIdx, poolRef) \<in> set ps")
      case True
      with Cons.IH [OF l] show ?thesis .
    next
      case False
      with Cons.prems(2) p have "?key = ?k" by simp
      moreover from Inl nf have "ipAddressClaims w ?k = None"
        by (auto simp: client_Get_def split: option.splits)
      then have "claimReleased w ?k" by (simp add: claimReleased_def)
      ultimately show ?thesis
        using deleteClaimsLoop_released_mono [OF l] by simp
    qed
  next
    case (Inr claim)
    then have st: "ipAddressClaims w ?k = Some claim"
      by (auto simp: client_Get_def split: option.splits)
    show ?thesis
    proof (cases "RemoveFinalizerChanged (claim_Finalizers claim) IPAddressClaimFinalizer")
      case False
      with Cons.prems(1) p Inr have l: "deleteClaimsLoop r vsphereVM ps w = (w', None)"
        by (simp add: Let_def)
      show ?thesis
      proof (cases "(devIdx, poolRefIdx, poolRef) \<in> set ps")
        case True
        with Cons.IH [OF l] show ?thesis .
      next
        case notin: False
        with Cons.prems(2) p have "?key = ?k" by simp
        moreover from st False have "claimReleased w ?k"
          by (simp add: claimReleased_def RemoveFinalizerChanged_iff)
        ultimately show ?thesis
          using deleteClaimsLoop_released_mono [OF l] by simp
      qed
    next
      case True
      let ?w1 = "logCall
                          (w\<lparr>ipAddressClaims := (ipAddressClaims w)(?k \<mapsto>
                                claim\<lparr>claim_Finalizers :=
                                  RemoveFinalizer (claim_Finalizers claim) IPAddressClaimFinalizer\<rparr>)\<rparr>)
                          (ClientUpdate ?k)"
      from Cons.prems(1) p Inr True
      have l: "deleteClaimsLoop r vsphereVM ps ?w1 = (w', None)"
        by (auto simp: Let_def split: option.splits)
      show ?thesis
      proof (cases "(devIdx, poolRefIdx, poolRef) \<in> set ps")
        case True
        with Cons.IH [OF l] show ?thesis .
      next
        case notin: False
        with Cons.prems(2) p have "?key = ?k" by simp
        moreover have "claimReleased ?w1 ?k"
          by (simp add: claimReleased_def logCall_def not_in_RemoveFinalizer)
        ultimately show ?thesis
          using deleteClaimsLoop_released_mono [OF l] by simp
      qed
    qed
  qed
qed

lemma deleteClaimsLoop_noop:
  "\<forall>(devIdx, poolRefIdx, poolRef) \<in> set ps.
      claimReleased w (Namespace vsphereVM, IPAddressClaimName r (Name vsphereVM) devIdx poolRefIdx) \<Longrightarrow>
   \<forall>key. GetErr r key = None \<Longrightarrow>
   deleteClaimsLoop r vsphereVM ps w = (w, None)"
proof (induction ps)
  case Nil
  then show ?case by simp
next
  case (Cons p ps)
  obtain d i q where p: "p = (d, i, q)"
    by (cases p) auto
  let ?k = "(Namespace vsphereVM, IPAddressClaimName r (Name vsphereVM) d i)"
  from Cons.prems(1) p have rel: "claimReleased w ?k" by simp
  from Cons have l: "deleteClaimsLoop r vsphereVM ps w = (w, None)" by simp
  show ?case
  proof (cases "ipAddressClaims w ?k")
    case None
    with Cons.prems(2) have "client_Get r w ?k = Inl NotFoundErr"
      by (simp add: client_Get_def)
    with p l show ?thesis by (simp add: Let_def)
  next
    case (Some claim)
    with Cons.prems(2) have "client_Get r w ?k = Inr claim"
      by (simp add: client_Get_def)
    moreover from rel Some
    have "\<not> RemoveFinalizerChanged (claim_Finalizers claim) IPAddressClaimFinalizer"
      by (simp add: claimReleased_def RemoveFinalizerChanged_iff)
    ultimately show ?thesis using p l by (simp add: Let_def)
  qed
qed

text \<open>
  C9. Releasing the address claims is repeat-safe. When every claim the release
  visits is absent or no longer carries the claim finalizer, and the reads do
  not fail, the release writes nothing (store and call log are what they were)
  and returns no error. So does a second release after a successful one, also
  under other write failures, as long as its reads do not fail.
\<close>

theorem deleteIPAddressClaims_repeat_safe:
  "((\<forall>key \<in> set (claimKeys r vsphereVM). claimReleased w key) \<and> (\<forall>key. GetErr r key = None) \<longrightarrow>
      deleteIPAddressClaims r w vsphereVM = (w, None)) \<and>
   (deleteIPAddressClaims r w vsphereVM = (w1, None) \<and>
    IPAddressClaimName r2 = IPAddressClaimName r \<and> (\<forall>key. GetErr r2 key = None) \<longrightarrow>
      deleteIPAddressClaims r2 w1 vsphereVM = (w1, None))"
proof (intro conjI impI)
  assume "(\<forall>key \<in> set (claimKeys r vsphereVM). claimReleased w key) \<and> (\<forall>key. GetErr r key = None)"
  then show "deleteIPAddressClaims r w vsphereVM = (w, None)"
    unfolding deleteIPAddressClaims_def
    by (intro deleteClaimsLoop_noop) (auto simp: claimKeys_def)
next
  assume h: "deleteIPAddressClaims r w vsphereVM = (w1, None) \<and>
    IPAddressClaimName r2 = IPAddressClaimName r \<and> (\<forall>key. GetErr r2 key = None)"
  then have "\<forall>(devIdx, poolRefIdx, poolRef) \<in> set (devicePoolRefs vsphereVM).
      claimReleased w1 (Namespace vsphereVM, IPAddressClaimName r2 (Name vsphereVM) devIdx poolRefIdx)"
    by (auto simp: deleteIPAddressClaims_def dest: deleteClaimsLoop_releases)
  with h show "deleteIPAddressClaims r2 w1 vsphereVM = (w1, None)"
    unfolding deleteIPAddressClaims_def
    by (intro deleteClaimsLoop_noop) auto
qed

text \<open>
  The first release removes the finalizer with one update, the second changes
  nothing.
\<close>

lemma sample_delete_first:
  "deleteIPAddressClaims sampleR sampleWorld samplePoolVM = (releasedWorld, None)"
  by (simp add: deleteIPAddressClaims_def sample_devicePoolRefs sampleR_claimName' sampleR_faults
      samplePoolVM_Namespace client_Get_def sampleWorld_def sampleClaim_def
      RemoveFinalizerChanged_def RemoveFinalizer_def logCall_def releasedWorld_def Let_def)

theorem deleteIPAddressClaims_repeat_safe_witness:
  "deleteIPAddressClaims sampleR sampleWorld samplePoolVM = (releasedWorld, None) \<and>
   deleteIPAddressClaims sampleR releasedWorld samplePoolVM = (releasedWorld, None)"
  using deleteIPAddressClaims_repeat_safe [of sampleR samplePoolVM sampleWorld releasedWorld sampleR]
    sample_delete_first
  by (simp add: sampleR_faults)

lemma claimsLoop_counts:
  "claimsLoop r vsphereVM ps w st = (w', Inr st') \<Longrightarrow>
     totalClaims st' = totalClaims st + length ps \<and>
     (claimsFulfilled st \<le> totalClaims st \<longrightarrow> claimsFulfilled st' \<le> totalClaims st')"
proof (induction ps arbitrary: w st)
  case Nil
  then show ?case by simp
next
  case (Cons p ps)
  obtain devIdx poolRefIdx poolRef where p: "p = (devIdx, poolRefIdx, poolRef)"
    by (cases p) auto
  let ?name = "IPAddressClaimName r (Name vsphereVM) devIdx poolRefIdx"
  let ?st1 = "st\<lparr>totalClaims := totalClaims st + 1\<rparr>"
  obtain w1 res where c: "createOrPatchIPAddressClaim r w vsphereVM ?name poolRef = (w1, res)"
    by (cases "createOrPatchIPAddressClaim r w vsphereVM ?name poolRef") auto
  from Cons.prems p c obtain st2 where
    l: "claimsLoop r vsphereVM ps w1 st2 = (w', Inr st')" and
    t: "totalClaims st2 = totalClaims st + 1" and
    f: "claimsFulfilled st2 \<le> claimsFulfilled st + 1"
    by (auto simp: Let_def split: option.splits sum.splits if_splits prod.splits)
  from Cons.IH [OF l] t f show ?case by auto
qed

text \<open>
  C4. When the loop over the device/pool pairs ends with no creation error and
  not every claim has a Ready condition, then with N the total (the number of
  pairs), F the fulfilled and C the created claims, F is at most N and the
  address-claimed condition is set: to status true when F = N; otherwise to
  status false with severity info, with the claims-being-created reason and
  the message "C/N claims being created" when C > 0, and with the waiting
  reason and the message "(N-F)/N claims being processed" when C = 0.
\<close>

theorem reconcileIPAddressClaims_fallback:
  assumes "claimsLoop r vsphereVM (devicePoolRefs vsphereVM) w initialCounts = (w', Inr st)"
    and "errList st = []"
    and "length (claims st) \<noteq> totalClaims st"
  shows "totalClaims st = length (devicePoolRefs vsphereVM) \<and>
         claimsFulfilled st \<le> totalClaims st \<and>
         reconcileIPAddressClaims r w vsphereVM =
           (vsphereVM\<lparr>Status_Conditions := (Status_Conditions vsphereVM)(IPAddressClaimedCondition \<mapsto>
               (if claimsFulfilled st = totalClaims st
                then \<lparr>cond_Status = ConditionTrue, cond_Severity = ConditionSeverityNone,
                      cond_Reason = [], cond_Message = []\<rparr>
                else if claimsCreated st > 0
                then \<lparr>cond_Status = ConditionFalse, cond_Severity = ConditionSeverityInfo,
                      cond_Reason = IPAddressClaimsBeingCreatedReason,
                      cond_Message = fmt_d (claimsCreated st) @ ''/'' @ fmt_d (totalClaims st) @
                                     '' claims being created''\<rparr>
                else \<lparr>cond_Status = ConditionFalse, cond_Severity = ConditionSeverityInfo,
                      cond_Reason = WaitingForIPAddressReason,
                      cond_Message = fmt_d (totalClaims st - claimsFulfilled st) @ ''/'' @
                                     fmt_d (totalClaims st) @ '' claims being processed''\<rparr>))\<rparr>,
            w', None)"
proof -
  from claimsLoop_counts [OF assms(1)]
  have n: "totalClaims st = length (devicePoolRefs vsphereVM)" and le: "claimsFulfilled st \<le> totalClaims st"
    by (simp_all add: initialCounts_def)
  have "reconcileIPAddressClaims r w vsphereVM =
           (vsphereVM\<lparr>Status_Conditions := (Status_Conditions vsphereVM)(IPAddressClaimedCondition \<mapsto>
               (if claimsFulfilled st = totalClaims st
                then \<lparr>cond_Status = ConditionTrue, cond_Severity = ConditionSeverityNone,
                      cond_Reason = [], cond_Message = []\<rparr>
                else if claimsCreated st > 0
                then \<lparr>cond_Status = ConditionFalse, cond_Severity = ConditionSeverityInfo,
                      cond_Reason = IPAddressClaimsBeingCreatedReason,
                      cond_Message = fmt_d (claimsCreated st) @ ''/'' @ fmt_d (totalClaims st) @
                                     '' claims being created''\<rparr>
                else \<lparr>cond_Status = ConditionFalse, cond_Severity = ConditionSeverityInfo,
                      cond_Reason = WaitingForIPAddressReason,
                      cond_Message = fmt_d (totalClaims st - claimsFulfilled st) @ ''/'' @
                                     fmt_d (totalClaims st) @ '' claims being processed''\<rparr>))\<rparr>,
            w', None)"
    using assms le
    by (auto simp add: reconcileIPAddressClaims_def MarkTrue_def MarkFalse_def TrueCondition_def
        FalseCondition_def simp del: fmt_d.simps)
  with n le show ?thesis by simp
qed

text \<open>
  The loop on one device with one pool and no claim yet: one claim is counted,
  created and not fulfilled.
\<close>

lemma sample_claimsLoop:
  "claimsLoop sampleR samplePoolVM (devicePoolRefs samplePoolVM) emptyWorld initialCounts =
     (\<lparr>ipAddressClaims = [(''ns'', ''vm-0-0'') \<mapsto> createdClaim],
       apiCalls = [ClientCreate (''ns'', ''vm-0-0'')]\<rparr>,
      Inr \<lparr>totalClaims = 1, claimsCreated = 1, claimsFulfilled = 0, claims = [], errList = []\<rparr>)"
proof -
  have c: "createOrPatchIPAddressClaim sampleR emptyWorld samplePoolVM ''vm-0-0'' samplePoolRef =
     (\<lparr>ipAddressClaims = [(''ns'', ''vm-0-0'') \<mapsto> createdClaim],
       apiCalls = [ClientCreate (''ns'', ''vm-0-0'')]\<rparr>, Inr (createdClaim, True))"
    unfolding sampleR_def by (rule sample_createOrPatch)
  have g: "client_Get sampleR emptyWorld (''ns'', ''vm-0-0'') = Inl NotFoundErr"
    by (simp add: client_Get_def sampleR_faults emptyWorld_def)
  have s: "claim_Status_AddressRef_Name createdClaim = []"
    "claim_Status_Conditions createdClaim ReadyCondition = None"
    by (simp_all add: createdClaim_def mutateFn_def newIPAddressClaim_def)
  show ?thesis
    by (simp add: sample_devicePoolRefs sampleR_claimName' samplePoolVM_Namespace Let_def
        g c s initialCounts_def Has_def)
qed

lemma fmt_d_120: "fmt_d 120 = ''120''"
  by (simp add: digitChar_def)

text \<open>
  One device with one pool and no claim yet: the claim is created and the
  condition is false with the message 1/1 claims being created. The two
  reasons differ, and counts are printed in decimal.
\<close>

theorem reconcileIPAddressClaims_fallback_witness:
  "Status_Conditions (fst (reconcileIPAddressClaims sampleR emptyWorld samplePoolVM))
     IPAddressClaimedCondition =
   Some \<lparr>cond_Status = ConditionFalse, cond_Severity = ConditionSeverityInfo,
         cond_Reason = ''IPAddressClaimsBeingCreated'',
         cond_Message = ''1/1 claims being created''\<rparr> \<and>
   IPAddressClaimsBeingCreatedReason \<noteq> WaitingForIPAddressReason \<and>
   fmt_d 120 = ''120''"
proof -
  have a: "Status_Conditions (fst (reconcileIPAddressClaims sampleR emptyWorld samplePoolVM))
     IPAddressClaimedCondition =
   Some \<lparr>cond_Status = ConditionFalse, cond_Severity = ConditionSeverityInfo,
         cond_Reason = IPAddressClaimsBeingCreatedReason,
         cond_Message = ''1/1 claims being created''\<rparr>"
    using reconcileIPAddressClaims_fallback [OF sample_claimsLoop]
    by (simp add: digitChar_def)
  have b: "IPAddressClaimsBeingCreatedReason \<noteq> WaitingForIPAddressReason"
    by (simp add: IPAddressClaimsBeingCreatedReason_def WaitingForIPAddressReason_def)
  have c: "IPAddressClaimsBeingCreatedReason = ''IPAddressClaimsBeingCreated''"
    by (simp add: IPAddressClaimsBeingCreatedReason_def)
  from a b fmt_d_120 show ?thesis unfolding c by (intro conjI)
qed

section \<open>Properties of the VM reconciler\<close>

lemma condsOnlyI:
  "(\<And>t. t \<notin> ts \<Longrightarrow> conds t = Status_Conditions vm t) \<Longrightarrow>
     condsOnly ts vm (vm\<lparr>Status_Conditions := conds\<rparr>)"
  by (auto simp: condsOnly_def)

lemma condsOnly_refl: "condsOnly ts vm vm"
proof -
  have "vm = vm\<lparr>Status_Conditions := Status_Conditions vm\<rparr>" by simp
  then show ?thesis unfolding condsOnly_def by blast
qed

lemma condsOnly_fields:
  assumes "condsOnly ts vm vm'"
  shows "Finalizers vm' = Finalizers vm" "DeletionTimestamp vm' = DeletionTimestamp vm"
    "Spec_BiosUUID vm' = Spec_BiosUUID vm" "Status_Ready vm' = Status_Ready vm"
    "Status_VMRef vm' = Status_VMRef vm" "Status_Network vm' = Status_Network vm"
    "Status_Addresses vm' = Status_Addresses vm"
    "t \<notin> ts \<Longrightarrow> Status_Conditions vm' t = Status_Conditions vm t"
  using assms by (auto simp: condsOnly_def)

lemma reconcileIPAddressClaims_condsOnly:
  assumes "reconcileIPAddressClaims r w vm = (vm1, w1, e)"
  shows "condsOnly {IPAddressClaimedCondition} vm vm1"
proof -
  obtain w' res where l: "claimsLoop r vm (devicePoolRefs vm) w initialCounts = (w', res)"
    by (cases "claimsLoop r vm (devicePoolRefs vm) w initialCounts") auto
  show ?thesis
  proof (cases res)
    case (Inl err)
    with assms l show ?thesis
      by (simp add: reconcileIPAddressClaims_def condsOnly_refl)
  next
    case (Inr st)
    with assms l show ?thesis
      by (auto simp add: reconcileIPAddressClaims_def condsOnly_refl MarkTrue_def MarkFalse_def
          SetAggregate_def Let_def simp del: fmt_d.simps Error.simps
          split: if_splits option.splits intro!: condsOnlyI)
  qed
qed

lemma reconcileIPAddressClaims_no_pools:
  "devicePoolRefs vm = [] \<Longrightarrow> aggregate r [] = None \<Longrightarrow>
     reconcileIPAddressClaims r w vm = (vm, w, None)"
  by (simp add: reconcileIPAddressClaims_def initialCounts_def SetAggregate_def)

lemma devicePoolRefs_Status_Conditions:
  "devicePoolRefs (vm\<lparr>Status_Conditions := c\<rparr>) = devicePoolRefs vm"
  by (simp add: devicePoolRefs_def)

lemma reconcileNormal_ready_eq:
  assumes "Status_FailureReason vm = None" "Status_FailureMessage vm = None"
    "\<not> isWaitingForStaticIPAllocation vm"
    "reconcileIPAddressClaims r w vm = (vm1, w1, None)"
    "ReconcileVM r vm1 = Inr bvm" "vm_State bvm = VirtualMachineStateReady" "vm_BiosUUID bvm \<noteq> []"
  shows "reconcileNormal r w vm =
     (let vsphereVM2 = vm1\<lparr>Spec_BiosUUID := vm_BiosUUID bvm\<rparr>;
                             vsphereVM3 =
                               (if vm_VMRef bvm \<noteq> [] \<and> Status_VMRef vsphereVM2 = []
                                then vsphereVM2\<lparr>Status_VMRef := vm_VMRef bvm\<rparr>
                                else vsphereVM2);
                             vsphereVM4 = reconcileNetwork vsphereVM3 bvm
                         in if length (Status_Addresses vsphereVM4) = 0
                            then (vsphereVM4\<lparr>Status_Conditions :=
                                      MarkFalse (Status_Conditions vsphereVM4) VMProvisionedCondition
                                        WaitingForIPAllocationReason ConditionSeverityInfo []\<rparr>,
                                  logCall w1 BackendReconcileVM, \<lparr>Requeue = False, RequeueAfter = 10 * Second\<rparr>, None)
                            else (vsphereVM4\<lparr>Status_Ready := True,
                                    Status_Conditions :=
                                      MarkTrue (Status_Conditions vsphereVM4) VMProvisionedCondition\<rparr>,
                                  logCall w1 BackendReconcileVM, emptyResult, None))"
  unfolding reconcileNormal_def
  by (simp only: assms if_False if_True not_False_eq_True simp_thms prod.case option.case sum.case Let_def [of "logCall w1 BackendReconcileVM"])

lemma reconcileNormal_fields:
  assumes "reconcileNormal r w vm = (vm', w', result, err)"
  shows "Finalizers vm' = Finalizers vm \<and> DeletionTimestamp vm' = DeletionTimestamp vm \<and>
         (Spec_BiosUUID vm' = Spec_BiosUUID vm \<or>
          (\<exists>vm1 bvm. ReconcileVM r vm1 = Inr bvm \<and> vm_State bvm = VirtualMachineStateReady \<and>
             vm_BiosUUID bvm \<noteq> [] \<and> Spec_BiosUUID vm' = vm_BiosUUID bvm))"
proof -
  obtain vm1 w1 e1 where c: "reconcileIPAddressClaims r w vm = (vm1, w1, e1)"
    by (cases "reconcileIPAddressClaims r w vm") auto
  then have co: "condsOnly {IPAddressClaimedCondition} vm vm1"
    by (rule reconcileIPAddressClaims_condsOnly)
  note f1 = condsOnly_fields(1-3) [OF co]
  consider (failed) "Status_FailureReason vm \<noteq> None \<or> Status_FailureMessage vm \<noteq> None"
    | (waiting) "\<not> (Status_FailureReason vm \<noteq> None \<or> Status_FailureMessage vm \<noteq> None)"
        "isWaitingForStaticIPAllocation vm"
    | (claims) "\<not> (Status_FailureReason vm \<noteq> None \<or> Status_FailureMessage vm \<noteq> None)"
        "\<not> isWaitingForStaticIPAllocation vm"
    by blast
  then show ?thesis
  proof cases
    case failed
    with assms have "vm' = vm" by (auto simp: reconcileNormal_def)
    then show ?thesis by simp
  next
    case waiting
    with assms have "vm' = vm\<lparr>Status_Conditions :=
                MarkFalse (Status_Conditions vm) VMProvisionedCondition
                  WaitingForStaticIPAllocationReason ConditionSeverityInfo []\<rparr>"
      by (auto simp: reconcileNormal_def)
    then show ?thesis by simp
  next
    case claims
    show ?thesis
    proof (cases e1)
      case (Some e)
      with assms claims c have "vm' = vm1" by (simp add: reconcileNormal_def)
      with f1 show ?thesis by simp
    next
      case None
      show ?thesis
      proof (cases "ReconcileVM r vm1")
        case (Inl e)
        with assms claims c None have "vm' = vm1" by (simp add: reconcileNormal_def Let_def)
        with f1 show ?thesis by simp
      next
        case (Inr bvm)
        show ?thesis
        proof (cases "vm_State bvm = VirtualMachineStateReady \<and> vm_BiosUUID bvm \<noteq> []")
          case False
          with assms claims c None Inr have "vm' = vm1"
            by (auto simp: reconcileNormal_def Let_def split: if_splits)
          with f1 show ?thesis by simp
        next
          case True
          define vm2 where "vm2 = vm1\<lparr>Spec_BiosUUID := vm_BiosUUID bvm\<rparr>"
          define vm3 where "vm3 = (if vm_VMRef bvm \<noteq> [] \<and> Status_VMRef vm2 = []
                                then vm2\<lparr>Status_VMRef := vm_VMRef bvm\<rparr> else vm2)"
          define vm4 where "vm4 = reconcileNetwork vm3 bvm"
          from claims have n: "Status_FailureReason vm = None" "Status_FailureMessage vm = None"
            by auto
          from c None have c': "reconcileIPAddressClaims r w vm = (vm1, w1, None)" by simp
          from True have t: "vm_State bvm = VirtualMachineStateReady" "vm_BiosUUID bvm \<noteq> []"
            by auto
          note eq = reconcileNormal_ready_eq [OF n claims(2) c' Inr t]
          have "reconcileNormal r w vm =
                 (if length (Status_Addresses vm4) = 0
                            then (vm4\<lparr>Status_Conditions :=
                                      MarkFalse (Status_Conditions vm4) VMProvisionedCondition
                                        WaitingForIPAllocationReason ConditionSeverityInfo []\<rparr>,
                                  logCall w1 BackendReconcileVM, \<lparr>Requeue = False, RequeueAfter = 10 * Second\<rparr>, None)
                            else (vm4\<lparr>Status_Ready := True,
                                    Status_Conditions :=
                                      MarkTrue (Status_Conditions vm4) VMProvisionedCondition\<rparr>,
                                  logCall w1 BackendReconcileVM, emptyResult, None))"
            unfolding vm4_def vm3_def vm2_def
            using eq by (simp only: Let_def)
          with assms have "Finalizers vm' = Finalizers vm4" "DeletionTimestamp vm' = DeletionTimestamp vm4"
            "Spec_BiosUUID vm' = Spec_BiosUUID vm4"
            by (auto split: if_splits)
          moreover have "Finalizers vm4 = Finalizers vm1" "DeletionTimestamp vm4 = DeletionTimestamp vm1"
            "Spec_BiosUUID vm4 = vm_BiosUUID bvm"
            by (simp_all add: vm4_def vm3_def vm2_def reconcileNetwork_def Let_def)
          ultimately have "Finalizers vm' = Finalizers vm" "DeletionTimestamp vm' = DeletionTimestamp vm"
            "Spec_BiosUUID vm' = vm_BiosUUID bvm"
            using f1 by simp_all
          with Inr True show ?thesis by blast
        qed
      qed
    qed
  qed
qed

lemma reconcileNormal_ready_BiosUUID:
  assumes "Status_FailureReason vm = None" and "Status_FailureMessage vm = None"
    and "\<not> isWaitingForStaticIPAllocation vm"
    and "devicePoolRefs vm = []" and "aggregate r [] = None"
    and "ReconcileVM r vm = Inr bvm"
    and "vm_State bvm = VirtualMachineStateReady" and "vm_BiosUUID bvm \<noteq> []"
  shows "Spec_BiosUUID (fst (reconcileNormal r w vm)) = vm_BiosUUID bvm"
proof -
  have cl: "reconcileIPAddressClaims r w vm = (vm, w, None)"
    using assms(4,5) by (rule reconcileIPAddressClaims_no_pools)
  note eq = reconcileNormal_ready_eq [OF assms(1-3) cl assms(6-8)]
  show ?thesis unfolding eq Let_def
    by (simp add: reconcileNetwork_def Let_def)
qed

lemma reconcileDelete_fields:
  assumes "reconcileDelete r w vm = (vm', w', result, err)"
  shows "Spec_BiosUUID vm' = Spec_BiosUUID vm \<and> DeletionTimestamp vm' = DeletionTimestamp vm \<and>
         (Finalizers vm' = Finalizers vm \<or>
          (\<exists>res bvm. DestroyVM r (vm\<lparr>Status_Conditions :=
                          MarkFalse (Status_Conditions vm) VMProvisionedCondition
                            DeletingReason ConditionSeverityInfo []\<rparr>) = Inr (res, bvm) \<and>
             IsZero res \<and> vm_State bvm = VirtualMachineStateNotFound \<and> err = None))"
proof -
  define vm1 where "vm1 = vm\<lparr>Status_Conditions :=
                          MarkFalse (Status_Conditions vm) VMProvisionedCondition
                            DeletingReason ConditionSeverityInfo []\<rparr>"
  have f: "Spec_BiosUUID vm1 = Spec_BiosUUID vm" "DeletionTimestamp vm1 = DeletionTimestamp vm"
    "Finalizers vm1 = Finalizers vm"
    by (simp_all add: vm1_def)
  show ?thesis
  proof (cases "DestroyVM r vm1")
    case (Inl e)
    with assms have "vm' = vm1\<lparr>Status_Conditions :=
                 MarkFalse (Status_Conditions vm1) VMProvisionedCondition
                   ''DeletionFailed'' ConditionSeverityWarning (Error e)\<rparr>"
      unfolding reconcileDelete_def Let_def vm1_def [symmetric] by simp
    with f show ?thesis by simp
  next
    case (Inr p)
    obtain res bvm where p: "p = (res, bvm)" by (cases p) auto
    show ?thesis
    proof (cases "IsZero res \<and> vm_State bvm = VirtualMachineStateNotFound")
      case False
      with assms Inr p have "vm' = vm1"
        unfolding reconcileDelete_def Let_def vm1_def [symmetric] by (auto split: if_splits)
      with f show ?thesis by simp
    next
      case True
      obtain w2 result2 err2 where dn: "deleteNode r (logCall w BackendDestroyVM) (vm_Name bvm) = (w2, result2, err2)"
        by (cases "deleteNode r (logCall w BackendDestroyVM) (vm_Name bvm)") auto
      obtain w3 err3 where dc: "deleteIPAddressClaims r w2 vm1 = (w3, err3)"
        by (cases "deleteIPAddressClaims r w2 vm1") auto
      from assms Inr p True dn dc
      have "vm' = vm1 \<or> (vm' = vm1\<lparr>Finalizers := RemoveFinalizer (Finalizers vm1) VMFinalizer\<rparr> \<and> err = None)"
        unfolding reconcileDelete_def Let_def vm1_def [symmetric]
        by (auto split: if_splits option.splits)
      with f Inr p True show ?thesis unfolding vm1_def [symmetric] by auto
    qed
  qed
qed

lemma reconcile_fields:
  assumes "reconcile r w vm = (vm', w', result, err)"
  shows "DeletionTimestamp vm' = DeletionTimestamp vm \<and>
         (Spec_BiosUUID vm' = Spec_BiosUUID vm \<or>
          (\<exists>vm1 bvm. ReconcileVM r vm1 = Inr bvm \<and> vm_State bvm = VirtualMachineStateReady \<and>
             vm_BiosUUID bvm \<noteq> [] \<and> Spec_BiosUUID vm' = vm_BiosUUID bvm)) \<and>
         (Finalizers vm' = Finalizers vm \<or>
          (DeletionTimestamp vm \<noteq> None \<and>
           (\<exists>res bvm. DestroyVM r (vm\<lparr>Status_Conditions :=
                          MarkFalse (Status_Conditions vm) VMProvisionedCondition
                            DeletingReason ConditionSeverityInfo []\<rparr>) = Inr (res, bvm) \<and>
              IsZero res \<and> vm_State bvm = VirtualMachineStateNotFound \<and> err = None)))"
proof -
  show ?thesis
  proof (cases "NodeAntiAffinity r \<and> fetchClusterModuleInfo r \<noteq> None \<and> DeletionTimestamp vm = None")
    case True
    with assms have "vm' = vm" by (simp add: reconcile_def)
    then show ?thesis by simp
  next
    case gate: False
    show ?thesis
    proof (cases "DeletionTimestamp vm = None")
      case False
      with assms gate have "reconcileDelete r w vm = (vm', w', result, err)"
        by (auto simp add: reconcile_def split: if_splits)
      from reconcileDelete_fields [OF this] False show ?thesis by blast
    next
      case True
      with assms gate have "reconcileNormal r w vm = (vm', w', result, err)"
        by (auto simp add: reconcile_def split: if_splits)
      from reconcileNormal_fields [OF this] show ?thesis by blast
    qed
  qed
qed

lemma fst_deferredPatch:
  "PatchVMErr r = None \<Longrightarrow>
     fst (deferredPatch r out) =
       Some ((fst out)\<lparr>Status_Conditions := SetSummary r (Status_Conditions (fst out))\<rparr>)"
  by (cases out) (simp add: deferredPatch_def Let_def)

lemma SetSummary_None: "summary r = (\<lambda>_. None) \<Longrightarrow> SetSummary r conds = conds"
  by (simp add: SetSummary_def)

lemma Reconcile_Some:
  assumes "Reconcile r w (Inr vm) = (Some vm', w', result, err)"
  shows "\<exists>vm2.
           vm' = vm2\<lparr>Status_Conditions := SetSummary r (Status_Conditions vm2)\<rparr> \<and>
           (let vm1 = vm\<lparr>Status_Conditions :=
                          MarkTrue (Status_Conditions vm) VCenterAvailableCondition\<rparr>
            in (vm2 = vm1 \<and> w' = w) \<or>
               (DeletionTimestamp vm = None \<and> VMFinalizer \<notin> set (Finalizers vm) \<and>
                vm2 = vm1\<lparr>Finalizers := AddFinalizer (Finalizers vm) VMFinalizer\<rparr> \<and> w' = w) \<or>
               (\<not> (DeletionTimestamp vm = None \<and> VMFinalizer \<notin> set (Finalizers vm)) \<and>
                reconcile r w vm1 = (vm2, w', result, err)))"
proof -
  let ?vm1 = "vm\<lparr>Status_Conditions := MarkTrue (Status_Conditions vm) VCenterAvailableCondition\<rparr>"
  let ?body = "(if (case GetClusterFromMetadata r of
                                             Inl err \<Rightarrow> False
                                           | Inr cluster \<Rightarrow> IsPaused cluster (Annotations ?vm1))
                                       then (?vm1, w, emptyResult, None)
                                       else if DeletionTimestamp ?vm1 = None \<and>
                                               \<not> ContainsFinalizer (Finalizers ?vm1) VMFinalizer
                                       then (?vm1\<lparr>Finalizers :=
                                                AddFinalizer (Finalizers ?vm1) VMFinalizer\<rparr>,
                                             w, emptyResult, None)
                                       else reconcile r w ?vm1)"
  from assms have d: "deferredPatch r ?body = (Some vm', w', result, err)"
    by (auto simp add: Reconcile_def Let_def split: option.splits if_splits sum.splits)
  obtain vm2 w2 res2 err2 where b: "?body = (vm2, w2, res2, err2)"
    by (cases ?body) auto
  from d have p: "vm' = vm2\<lparr>Status_Conditions := SetSummary r (Status_Conditions vm2)\<rparr>"
    and e: "w2 = w'" "res2 = result" "err2 = err"
    unfolding b by (auto simp: deferredPatch_def Let_def split: option.splits)
  from b e have "(vm2 = ?vm1 \<and> w' = w) \<or>
               (DeletionTimestamp vm = None \<and> VMFinalizer \<notin> set (Finalizers vm) \<and>
                vm2 = ?vm1\<lparr>Finalizers := AddFinalizer (Finalizers vm) VMFinalizer\<rparr> \<and> w' = w) \<or>
               (\<not> (DeletionTimestamp vm = None \<and> VMFinalizer \<notin> set (Finalizers vm)) \<and>
                reconcile r w ?vm1 = (vm2, w', result, err))"
    by (auto simp: ContainsFinalizer_def split: if_splits)
  with p have "vm' = vm2\<lparr>Status_Conditions := SetSummary r (Status_Conditions vm2)\<rparr> \<and>
           (let vm1 = vm\<lparr>Status_Conditions :=
                          MarkTrue (Status_Conditions vm) VCenterAvailableCondition\<rparr>
            in (vm2 = vm1 \<and> w' = w) \<or>
               (DeletionTimestamp vm = None \<and> VMFinalizer \<notin> set (Finalizers vm) \<and>
                vm2 = vm1\<lparr>Finalizers := AddFinalizer (Finalizers vm) VMFinalizer\<rparr> \<and> w' = w) \<or>
               (\<not> (DeletionTimestamp vm = None \<and> VMFinalizer \<notin> set (Finalizers vm)) \<and>
                reconcile r w vm1 = (vm2, w', result, err)))"
    unfolding Let_def by (intro conjI)
  then show ?thesis by (rule exI)
qed

lemma Reconcile_dispatch:
  assumes "NewHelperErr r = None" and "retrieveVcenterSession r = None"
    and "GetOwnerVSphereMachine r" and "GetVSphereClusterFromVSphereMachine r"
    and "GetOwnerMachine r = Inr (Some machine)" and "lookupFailureDomain r machine = None"
    and "\<forall>cluster. GetClusterFromMetadata r = Inr cluster \<longrightarrow> \<not> IsPaused cluster (Annotations vm)"
    and "DeletionTimestamp vm \<noteq> None \<or> VMFinalizer \<in> set (Finalizers vm)"
  shows "Reconcile r w (Inr vm) =
           deferredPatch r
             (reconcile r w
                (vm\<lparr>Status_Conditions := MarkTrue (Status_Conditions vm) VCenterAvailableCondition\<rparr>))"
proof -
  have np: "\<And>v. Annotations v = Annotations vm \<Longrightarrow>
           (case GetClusterFromMetadata r of Inl err \<Rightarrow> False
            | Inr cluster \<Rightarrow> IsPaused cluster (Annotations v)) = False"
    using assms(7) by (auto split: sum.splits)
  from assms(1-6,8) show ?thesis
    by (auto simp add: Reconcile_def Let_def np ContainsFinalizer_def)
qed

lemma Reconcile_first:
  assumes "DeletionTimestamp vm = None" and "VMFinalizer \<notin> set (Finalizers vm)"
    and "NewHelperErr r = None" and "retrieveVcenterSession r = None"
    and "GetOwnerVSphereMachine r" and "GetVSphereClusterFromVSphereMachine r"
    and "GetOwnerMachine r = Inr (Some machine)" and "lookupFailureDomain r machine = None"
    and "\<forall>cluster. GetClusterFromMetadata r = Inr cluster \<longrightarrow> \<not> IsPaused cluster (Annotations vm)"
    and "PatchVMErr r = None"
  shows "Reconcile r w (Inr vm) =
          (Some (vm\<lparr>Finalizers := Finalizers vm @ [VMFinalizer],
                      Status_Conditions :=
                        SetSummary r (MarkTrue (Status_Conditions vm) VCenterAvailableCondition)\<rparr>),
           w, emptyResult, None)"
proof -
  have np: "\<And>v. Annotations v = Annotations vm \<Longrightarrow>
           (case GetClusterFromMetadata r of Inl err \<Rightarrow> False
            | Inr cluster \<Rightarrow> IsPaused cluster (Annotations v)) = False"
    using assms(9) by (auto split: sum.splits)
  show ?thesis
    using assms(1-8,10)
    by (simp add: Reconcile_def Let_def np deferredPatch_def ContainsFinalizer_def AddFinalizer_def)
qed

text \<open>The sample objects and what the reconciler does on them.\<close>

lemma sample_lookups:
  "NewHelperErr (sampleReconciler a b) = None"
  "retrieveVcenterSession (sampleReconciler a b) = None"
  "GetOwnerVSphereMachine (sampleReconciler a b)"
  "GetVSphereClusterFromVSphereMachine (sampleReconciler a b)"
  "GetOwnerMachine (sampleReconciler a b) =
     Inr (Some (sampleMachine\<lparr>machine_Spec_FailureDomain := None\<rparr>))"
  "lookupFailureDomain (sampleReconciler a b) (sampleMachine\<lparr>machine_Spec_FailureDomain := None\<rparr>) = None"
  "PatchVMErr (sampleReconciler a b) = None"
  "aggregate (sampleReconciler a b) cs = None"
  "summary (sampleReconciler a b) = (\<lambda>_. None)"
  "NodeAntiAffinity (sampleReconciler a b) = False"
  "ReconcileVM (sampleReconciler a b) v = a"
  "DestroyVM (sampleReconciler a b) v = b"
  "GetClusterFromMetadata (sampleReconciler a b) = Inr sampleCluster"
  "GetClient (sampleReconciler a b) = None"
  "DeleteNode (sampleReconciler a b) n = None"
  by (simp_all add: sampleReconciler_def lookupFailureDomain_def)

lemma sample_not_paused:
  "Annotations vm = Map.empty \<Longrightarrow>
   \<forall>cluster. GetClusterFromMetadata (sampleReconciler a b) = Inr cluster \<longrightarrow>
      \<not> IsPaused cluster (Annotations vm)"
  by (simp add: sample_lookups sampleCluster_def IsPaused_def HasPaused_def)

lemma sampleVM_fields:
  "Annotations sampleVM = Map.empty" "Finalizers sampleVM = []" "DeletionTimestamp sampleVM = None"
  "Status_FailureReason sampleVM = None" "Status_FailureMessage sampleVM = None"
  "Status_Conditions sampleVM = Map.empty"
  "devicePoolRefs (sampleVM\<lparr>Finalizers := fs, DeletionTimestamp := d, Spec_BiosUUID := u,
      Status_Conditions := c\<rparr>) = []"
  "\<not> isWaitingForStaticIPAllocation (sampleVM\<lparr>Finalizers := fs, DeletionTimestamp := d,
      Spec_BiosUUID := u, Status_Conditions := c\<rparr>)"
  by (simp_all add: sampleVM_def devicePoolRefs_def isWaitingForStaticIPAllocation_def)

lemma sampleReadyVM_fields:
  "Annotations sampleReadyVM = Map.empty" "Finalizers sampleReadyVM = [VMFinalizer]"
  "DeletionTimestamp sampleReadyVM = None" "Spec_BiosUUID sampleReadyVM = ''h-1''"
  "Status_FailureReason sampleReadyVM = None" "Status_FailureMessage sampleReadyVM = None"
  "devicePoolRefs (sampleReadyVM\<lparr>Status_Conditions := c\<rparr>) = []"
  "\<not> isWaitingForStaticIPAllocation (sampleReadyVM\<lparr>Status_Conditions := c\<rparr>)"
  "devicePoolRefs sampleReadyVM = []"
  "\<not> isWaitingForStaticIPAllocation sampleReadyVM"
  by (simp_all add: sampleReadyVM_def sampleVM_def devicePoolRefs_def isWaitingForStaticIPAllocation_def)

lemma sampleDeletingVM_fields:
  "Annotations sampleDeletingVM = Map.empty" "Finalizers sampleDeletingVM = [VMFinalizer]"
  "DeletionTimestamp sampleDeletingVM = Some 1"
  "devicePoolRefs (sampleDeletingVM\<lparr>Status_Conditions := c\<rparr>) = []"
  by (simp_all add: sampleDeletingVM_def sampleVM_def devicePoolRefs_def)

lemmas sampleR_lookups =
  sample_lookups [of "Inr (sampleBackendVM ''h-1'' VirtualMachineStateReady)"
    "Inr (emptyResult, sampleBackendVM ''h-1'' VirtualMachineStateNotFound)", folded sampleR_def]

lemma sampleR_not_paused:
  "\<forall>cluster. GetClusterFromMetadata sampleR = Inr cluster \<longrightarrow>
          \<not> IsPaused cluster (Annotations sampleVM)"
  unfolding sampleR_def by (rule sample_not_paused) (simp add: sampleVM_fields)

lemma sample_Reconcile_ready:
  assumes "a = Inr bvm" "vm_State bvm = VirtualMachineStateReady" "vm_BiosUUID bvm \<noteq> []"
  shows "map_option Spec_BiosUUID (fst (Reconcile (sampleReconciler a b) w (Inr sampleReadyVM)))
           = Some (vm_BiosUUID bvm)"
proof -
  let ?r = "sampleReconciler a b"
  let ?vm1 = "sampleReadyVM\<lparr>Status_Conditions :=
                 MarkTrue (Status_Conditions sampleReadyVM) VCenterAvailableCondition\<rparr>"
  have d: "Reconcile ?r w (Inr sampleReadyVM) = deferredPatch ?r (reconcile ?r w ?vm1)"
    by (rule Reconcile_dispatch [OF sample_lookups(1-6) sample_not_paused])
       (simp_all add: sampleReadyVM_fields)
  have n: "reconcile ?r w ?vm1 = reconcileNormal ?r w ?vm1"
    by (simp add: reconcile_def sample_lookups sampleReadyVM_fields)
  have "Spec_BiosUUID (fst (reconcileNormal ?r w ?vm1)) = vm_BiosUUID bvm"
    by (rule reconcileNormal_ready_BiosUUID [OF _ _ _ _ _ _ assms(2,3)])
       (simp_all add: sampleReadyVM_fields sample_lookups assms(1))
  then show ?thesis
    by (simp add: d n fst_deferredPatch sample_lookups)
qed

lemma sample_Reconcile_deleting:
  "Reconcile (sampleReconciler a b) w (Inr sampleDeletingVM) =
     deferredPatch (sampleReconciler a b)
       (reconcileDelete (sampleReconciler a b) w
          (sampleDeletingVM\<lparr>Status_Conditions :=
              MarkTrue (Status_Conditions sampleDeletingVM) VCenterAvailableCondition\<rparr>))"
proof -
  let ?r = "sampleReconciler a b"
  let ?vm1 = "sampleDeletingVM\<lparr>Status_Conditions :=
                 MarkTrue (Status_Conditions sampleDeletingVM) VCenterAvailableCondition\<rparr>"
  have d: "Reconcile ?r w (Inr sampleDeletingVM) = deferredPatch ?r (reconcile ?r w ?vm1)"
    by (rule Reconcile_dispatch [OF sample_lookups(1-6) sample_not_paused])
       (simp_all add: sampleDeletingVM_fields)
  have n: "reconcile ?r w ?vm1 = reconcileDelete ?r w ?vm1"
    by (simp add: reconcile_def sample_lookups sampleDeletingVM_fields)
  show ?thesis by (simp only: d n)
qed

lemma sample_reconcileDelete_gone:
  assumes "b = Inr (emptyResult, bvm)" "vm_State bvm = VirtualMachineStateNotFound"
    "devicePoolRefs vm = []"
  shows "Finalizers (fst (reconcileDelete (sampleReconciler a b) w vm)) =
           RemoveFinalizer (Finalizers vm) VMFinalizer"
  using assms
  by (simp add: reconcileDelete_def Let_def sample_lookups IsZero_def emptyResult_def
      deleteNode_def deleteIPAddressClaims_def devicePoolRefs_Status_Conditions)

lemma reconcileNormal_BiosUUID:
  assumes "reconcileNormal r w vm = (vm', w', result, err)"
  shows "Finalizers vm' = Finalizers vm \<and> DeletionTimestamp vm' = DeletionTimestamp vm \<and>
         (Spec_BiosUUID vm' = Spec_BiosUUID vm \<or>
          (\<exists>bvm. ReconcileVM r (fst (reconcileIPAddressClaims r w vm)) = Inr bvm \<and>
             vm_State bvm = VirtualMachineStateReady \<and>
             vm_BiosUUID bvm \<noteq> [] \<and> Spec_BiosUUID vm' = vm_BiosUUID bvm))"
proof -
  obtain vm1 w1 e1 where c: "reconcileIPAddressClaims r w vm = (vm1, w1, e1)"
    by (cases "reconcileIPAddressClaims r w vm") auto
  then have co: "condsOnly {IPAddressClaimedCondition} vm vm1"
    by (rule reconcileIPAddressClaims_condsOnly)
  note f1 = condsOnly_fields(1-3) [OF co]
  consider (failed) "Status_FailureReason vm \<noteq> None \<or> Status_FailureMessage vm \<noteq> None"
    | (waiting) "\<not> (Status_FailureReason vm \<noteq> None \<or> Status_FailureMessage vm \<noteq> None)"
        "isWaitingForStaticIPAllocation vm"
    | (claims) "\<not> (Status_FailureReason vm \<noteq> None \<or> Status_FailureMessage vm \<noteq> None)"
        "\<not> isWaitingForStaticIPAllocation vm"
    by blast
  then show ?thesis
  proof cases
    case failed
    with assms have "vm' = vm" by (auto simp: reconcileNormal_def)
    then show ?thesis by simp
  next
    case waiting
    with assms have "vm' = vm\<lparr>Status_Conditions :=
                MarkFalse (Status_Conditions vm) VMProvisionedCondition
                  WaitingForStaticIPAllocationReason ConditionSeverityInfo []\<rparr>"
      by (auto simp: reconcileNormal_def)
    then show ?thesis by simp
  next
    case claims
    show ?thesis
    proof (cases e1)
      case (Some e)
      with assms claims c have "vm' = vm1" by (simp add: reconcileNormal_def)
      with f1 show ?thesis by simp
    next
      case None
      show ?thesis
      proof (cases "ReconcileVM r vm1")
        case (Inl e)
        with assms claims c None have "vm' = vm1" by (simp add: reconcileNormal_def Let_def)
        with f1 show ?thesis by simp
      next
        case (Inr bvm)
        show ?thesis
        proof (cases "vm_State bvm = VirtualMachineStateReady \<and> vm_BiosUUID bvm \<noteq> []")
          case False
          with assms claims c None Inr have "vm' = vm1"
            by (auto simp: reconcileNormal_def Let_def split: if_splits)
          with f1 show ?thesis by simp
        next
          case True
          define vm2 where "vm2 = vm1\<lparr>Spec_BiosUUID := vm_BiosUUID bvm\<rparr>"
          define vm3 where "vm3 = (if vm_VMRef bvm \<noteq> [] \<and> Status_VMRef vm2 = []
                                then vm2\<lparr>Status_VMRef := vm_VMRef bvm\<rparr> else vm2)"
          define vm4 where "vm4 = reconcileNetwork vm3 bvm"
          from claims have n: "Status_FailureReason vm = None" "Status_FailureMessage vm = None"
            by auto
          from c None have c': "reconcileIPAddressClaims r w vm = (vm1, w1, None)" by simp
          from True have t: "vm_State bvm = VirtualMachineStateReady" "vm_BiosUUID bvm \<noteq> []"
            by auto
          note eq = reconcileNormal_ready_eq [OF n claims(2) c' Inr t]
          have "reconcileNormal r w vm =
                 (if length (Status_Addresses vm4) = 0
                            then (vm4\<lparr>Status_Conditions :=
                                      MarkFalse (Status_Conditions vm4) VMProvisionedCondition
                                        WaitingForIPAllocationReason ConditionSeverityInfo []\<rparr>,
                                  logCall w1 BackendReconcileVM, \<lparr>Requeue = False, RequeueAfter = 10 * Second\<rparr>, None)
                            else (vm4\<lparr>Status_Ready := True,
                                    Status_Conditions :=
                                      MarkTrue (Status_Conditions vm4) VMProvisionedCondition\<rparr>,
                                  logCall w1 BackendReconcileVM, emptyResult, None))"
            unfolding vm4_def vm3_def vm2_def
            using eq by (simp only: Let_def)
          with assms have "Finalizers vm' = Finalizers vm4" "DeletionTimestamp vm' = DeletionTimestamp vm4"
            "Spec_BiosUUID vm' = Spec_BiosUUID vm4"
            by (auto split: if_splits)
          moreover have "Finalizers vm4 = Finalizers vm1" "DeletionTimestamp vm4 = DeletionTimestamp vm1"
            "Spec_BiosUUID vm4 = vm_BiosUUID bvm"
            by (simp_all add: vm4_def vm3_def vm2_def reconcileNetwork_def Let_def)
          ultimately have "Finalizers vm' = Finalizers vm" "DeletionTimestamp vm' = DeletionTimestamp vm"
            "Spec_BiosUUID vm' = vm_BiosUUID bvm"
            using f1 by simp_all
          with Inr True c show ?thesis by auto
        qed
      qed
    qed
  qed
qed

lemma reconcile_BiosUUID:
  assumes "reconcile r w vm = (vm', w', result, err)"
  shows "Spec_BiosUUID vm' = Spec_BiosUUID vm \<or>
          (\<exists>bvm. ReconcileVM r (fst (reconcileIPAddressClaims r w vm)) = Inr bvm \<and>
             vm_State bvm = VirtualMachineStateReady \<and>
             vm_BiosUUID bvm \<noteq> [] \<and> Spec_BiosUUID vm' = vm_BiosUUID bvm)"
proof (cases "NodeAntiAffinity r \<and> fetchClusterModuleInfo r \<noteq> None \<and> DeletionTimestamp vm = None")
  case True
  with assms have "vm' = vm" by (simp add: reconcile_def)
  then show ?thesis by simp
next
  case gate: False
  show ?thesis
  proof (cases "DeletionTimestamp vm = None")
    case False
    with assms gate have "reconcileDelete r w vm = (vm', w', result, err)"
      by (auto simp add: reconcile_def split: if_splits)
    from reconcileDelete_fields [OF this] show ?thesis by blast
  next
    case True
    with assms gate have "reconcileNormal r w vm = (vm', w', result, err)"
      by (auto simp add: reconcile_def split: if_splits)
    from reconcileNormal_BiosUUID [OF this] show ?thesis by blast
  qed
qed

text \<open>
  C1 (as amended). A reconcile never clears a non-empty hardware id of the
  spec. In the VM that a reconcile patches the id is still non-empty, and it
  is either what it was or the id that the backend's ReconcileVM, as called by
  this reconcile, reported with state Ready. So the id is what it was whenever
  that call reports the same id, reports another state, or fails; only a call
  that reports the VM ready with another id changes it.
\<close>

theorem Reconcile_BiosUUID_not_cleared:
  assumes "Reconcile r w (Inr vm) = (Some vm', w', result, err)"
    and "Spec_BiosUUID vm \<noteq> []"
  shows "let observed =
               ReconcileVM r
                 (fst (reconcileIPAddressClaims r w
                    (vm\<lparr>Status_Conditions :=
                          MarkTrue (Status_Conditions vm) VCenterAvailableCondition\<rparr>)))
         in Spec_BiosUUID vm' \<noteq> [] \<and>
            (Spec_BiosUUID vm' = Spec_BiosUUID vm \<or>
             (\<exists>bvm. observed = Inr bvm \<and> vm_State bvm = VirtualMachineStateReady \<and>
                Spec_BiosUUID vm' = vm_BiosUUID bvm)) \<and>
            (\<forall>bvm. observed = Inr bvm \<and> vm_BiosUUID bvm = Spec_BiosUUID vm \<longrightarrow>
                Spec_BiosUUID vm' = Spec_BiosUUID vm) \<and>
            (\<forall>bvm. observed = Inr bvm \<and> vm_State bvm \<noteq> VirtualMachineStateReady \<longrightarrow>
                Spec_BiosUUID vm' = Spec_BiosUUID vm) \<and>
            (\<forall>e. observed = Inl e \<longrightarrow> Spec_BiosUUID vm' = Spec_BiosUUID vm)"
proof -
  let ?vm1 = "vm\<lparr>Status_Conditions := MarkTrue (Status_Conditions vm) VCenterAvailableCondition\<rparr>"
  let ?observed = "ReconcileVM r (fst (reconcileIPAddressClaims r w ?vm1))"
  from Reconcile_Some [OF assms(1)] obtain vm2 where
    p: "vm' = vm2\<lparr>Status_Conditions := SetSummary r (Status_Conditions vm2)\<rparr>" and
    b: "vm2 = ?vm1 \<or>
        vm2 = ?vm1\<lparr>Finalizers := AddFinalizer (Finalizers vm) VMFinalizer\<rparr> \<or>
        reconcile r w ?vm1 = (vm2, w', result, err)"
    unfolding Let_def by blast
  from p have u: "Spec_BiosUUID vm' = Spec_BiosUUID vm2" by simp
  from b have "Spec_BiosUUID vm2 = Spec_BiosUUID vm \<or>
          (\<exists>bvm. ?observed = Inr bvm \<and> vm_State bvm = VirtualMachineStateReady \<and>
             vm_BiosUUID bvm \<noteq> [] \<and> Spec_BiosUUID vm2 = vm_BiosUUID bvm)"
  proof (elim disjE)
    assume "reconcile r w ?vm1 = (vm2, w', result, err)"
    from reconcile_BiosUUID [OF this] show ?thesis by simp
  qed simp_all
  with u have d: "Spec_BiosUUID vm' = Spec_BiosUUID vm \<or>
          (\<exists>bvm. ?observed = Inr bvm \<and> vm_State bvm = VirtualMachineStateReady \<and>
             vm_BiosUUID bvm \<noteq> [] \<and> Spec_BiosUUID vm' = vm_BiosUUID bvm)"
    by simp
  with assms(2) have 1: "Spec_BiosUUID vm' \<noteq> []" by auto
  from d have 2: "Spec_BiosUUID vm' = Spec_BiosUUID vm \<or>
             (\<exists>bvm. ?observed = Inr bvm \<and> vm_State bvm = VirtualMachineStateReady \<and>
                Spec_BiosUUID vm' = vm_BiosUUID bvm)" by auto
  from d have 3: "\<forall>bvm. ?observed = Inr bvm \<and> vm_BiosUUID bvm = Spec_BiosUUID vm \<longrightarrow>
                Spec_BiosUUID vm' = Spec_BiosUUID vm" by auto
  from d have 4: "\<forall>bvm. ?observed = Inr bvm \<and> vm_State bvm \<noteq> VirtualMachineStateReady \<longrightarrow>
                Spec_BiosUUID vm' = Spec_BiosUUID vm" by auto
  from d have 5: "\<forall>e. ?observed = Inl e \<longrightarrow> Spec_BiosUUID vm' = Spec_BiosUUID vm" by auto
  from 1 2 3 4 5 show ?thesis unfolding Let_def by (intro conjI)
qed

text \<open>The backend reports the id the spec holds: the id stays.\<close>

theorem Reconcile_BiosUUID_not_cleared_witness:
  "Spec_BiosUUID sampleReadyVM \<noteq> [] \<and>
   map_option Spec_BiosUUID (fst (Reconcile sampleR emptyWorld (Inr sampleReadyVM))) = Some ''h-1''"
proof -
  let ?out = "Reconcile sampleR emptyWorld (Inr sampleReadyVM)"
  have "\<exists>vm'. fst ?out = Some vm'"
    using sample_Reconcile_ready [of "Inr (sampleBackendVM ''h-1'' VirtualMachineStateReady)"
      "sampleBackendVM ''h-1'' VirtualMachineStateReady"
      "Inr (emptyResult, sampleBackendVM ''h-1'' VirtualMachineStateNotFound)" emptyWorld]
    by (auto simp add: sampleR_def sampleBackendVM_def)
  then obtain vm' where v: "fst ?out = Some vm'" by auto
  then have o: "?out = (Some vm', fst (snd ?out), fst (snd (snd ?out)), snd (snd (snd ?out)))"
    by (metis prod.collapse)
  have ne: "Spec_BiosUUID sampleReadyVM \<noteq> []" by (simp add: sampleReadyVM_fields)
  have ob: "ReconcileVM sampleR arg = Inr (sampleBackendVM ''h-1'' VirtualMachineStateReady)" for arg
    by (simp add: sampleR_lookups)
  from Reconcile_BiosUUID_not_cleared [OF o ne]
  have "Spec_BiosUUID vm' = Spec_BiosUUID sampleReadyVM"
    unfolding Let_def ob by (simp add: sampleBackendVM_def sampleReadyVM_fields)
  with v ne show ?thesis by (simp add: sampleReadyVM_fields)
qed

text \<open>
  C1 as stated fails: the spec holds \<open>h-1\<close>, the backend reports the VM ready
  with \<open>h-2\<close>, and the patched spec holds \<open>h-2\<close>.
\<close>

theorem Reconcile_BiosUUID_overwritten_counterexample:
  "Spec_BiosUUID sampleReadyVM = ''h-1'' \<and>
   map_option Spec_BiosUUID (fst (Reconcile otherIdR emptyWorld (Inr sampleReadyVM))) = Some ''h-2''"
  using sample_Reconcile_ready [of "Inr (sampleBackendVM ''h-2'' VirtualMachineStateReady)"
      "sampleBackendVM ''h-2'' VirtualMachineStateReady"
      "Inr (emptyResult, sampleBackendVM ''h-2'' VirtualMachineStateNotFound)" emptyWorld]
  by (simp add: otherIdR_def sampleBackendVM_def sampleReadyVM_fields)

text \<open>
  C2. When the normal path reaches the backend (the VM has not failed, is not
  waiting for a static address, and its address claims were reconciled without
  error) and ReconcileVM reports state Ready with an empty hardware id, the
  normal path returns the error "bios uuid is empty while VM is ready" and the
  VM is as the claim reconciliation left it: ready flag, VM reference, network
  status, addresses, hardware id and the provisioned condition are what they
  were before the reconcile.
\<close>

theorem reconcileNormal_empty_BiosUUID:
  assumes "Status_FailureReason vm = None" and "Status_FailureMessage vm = None"
    and "\<not> isWaitingForStaticIPAllocation vm"
    and "reconcileIPAddressClaims r w vm = (vm1, w1, None)"
    and "ReconcileVM r vm1 = Inr bvm"
    and "vm_State bvm = VirtualMachineStateReady" and "vm_BiosUUID bvm = []"
  shows "reconcileNormal r w vm =
           (vm1, logCall w1 BackendReconcileVM, emptyResult,
            Some (Errorf ''bios uuid is empty while VM is ready'')) \<and>
         Status_Ready vm1 = Status_Ready vm \<and> Status_VMRef vm1 = Status_VMRef vm \<and>
         Status_Network vm1 = Status_Network vm \<and> Status_Addresses vm1 = Status_Addresses vm \<and>
         Spec_BiosUUID vm1 = Spec_BiosUUID vm \<and>
         Status_Conditions vm1 VMProvisionedCondition = Status_Conditions vm VMProvisionedCondition"
proof -
  have "reconcileNormal r w vm =
           (vm1, logCall w1 BackendReconcileVM, emptyResult,
            Some (Errorf ''bios uuid is empty while VM is ready''))"
    unfolding reconcileNormal_def
    by (simp only: assms if_False if_True not_False_eq_True simp_thms prod.case option.case
        sum.case Let_def [of "logCall w1 BackendReconcileVM"])
  moreover from assms(4) have "condsOnly {IPAddressClaimedCondition} vm vm1"
    by (rule reconcileIPAddressClaims_condsOnly)
  ultimately show ?thesis
    by (simp add: condsOnly_fields)
qed

text \<open>The backend reports the sample VM ready without a hardware id.\<close>

theorem reconcileNormal_empty_BiosUUID_witness:
  "reconcileNormal emptyIdR emptyWorld sampleReadyVM =
     (sampleReadyVM, logCall emptyWorld BackendReconcileVM, emptyResult,
      Some (Errorf ''bios uuid is empty while VM is ready''))"
proof -
  have cl: "reconcileIPAddressClaims emptyIdR emptyWorld sampleReadyVM = (sampleReadyVM, emptyWorld, None)"
    unfolding emptyIdR_def
    by (rule reconcileIPAddressClaims_no_pools) (simp_all add: sampleReadyVM_fields sample_lookups)
  have rv: "ReconcileVM emptyIdR sampleReadyVM = Inr (sampleBackendVM [] VirtualMachineStateReady)"
    by (simp add: emptyIdR_def sample_lookups)
  from reconcileNormal_empty_BiosUUID [OF sampleReadyVM_fields(5,6,10) cl rv]
  show ?thesis by (simp add: sampleBackendVM_def)
qed

text \<open>
  C3 (as amended). For a VM that is not being deleted and lacks the finalizer,
  when the session, the owner objects and the failure domain are found, the
  cluster is not paused and the patch succeeds: the first Reconcile returns
  success with an empty result, makes no call on the claims or the backend
  (the world is what it was), and patches the VM with the finalizer added and
  with two conditions changed, the vCenter-available condition marked true and
  the summary set; every other field is what it was. A second Reconcile, of
  the patched VM, goes on to the delete-or-normal dispatch.
\<close>

theorem Reconcile_finalizer_first:
  assumes "DeletionTimestamp vm = None" and "VMFinalizer \<notin> set (Finalizers vm)"
    and "NewHelperErr r = None" and "retrieveVcenterSession r = None"
    and "GetOwnerVSphereMachine r" and "GetVSphereClusterFromVSphereMachine r"
    and "GetOwnerMachine r = Inr (Some machine)" and "lookupFailureDomain r machine = None"
    and "\<forall>cluster. GetClusterFromMetadata r = Inr cluster \<longrightarrow> \<not> IsPaused cluster (Annotations vm)"
    and "PatchVMErr r = None"
  shows "let vm1 = vm\<lparr>Finalizers := Finalizers vm @ [VMFinalizer],
                      Status_Conditions :=
                        SetSummary r (MarkTrue (Status_Conditions vm) VCenterAvailableCondition)\<rparr>
         in Reconcile r w (Inr vm) = (Some vm1, w, emptyResult, None) \<and>
            Reconcile r w (Inr vm1) =
              deferredPatch r
                (reconcile r w
                   (vm1\<lparr>Status_Conditions :=
                          MarkTrue (Status_Conditions vm1) VCenterAvailableCondition\<rparr>))"
proof -
  let ?vm1 = "vm\<lparr>Finalizers := Finalizers vm @ [VMFinalizer],
                      Status_Conditions :=
                        SetSummary r (MarkTrue (Status_Conditions vm) VCenterAvailableCondition)\<rparr>"
  have 1: "Reconcile r w (Inr vm) = (Some ?vm1, w, emptyResult, None)"
    using assms by (rule Reconcile_first)
  have a: "\<forall>cluster. GetClusterFromMetadata r = Inr cluster \<longrightarrow> \<not> IsPaused cluster (Annotations ?vm1)"
    using assms(9) by simp
  have f: "DeletionTimestamp ?vm1 \<noteq> None \<or> VMFinalizer \<in> set (Finalizers ?vm1)"
    by simp
  have 2: "Reconcile r w (Inr ?vm1) =
              deferredPatch r
                (reconcile r w
                   (?vm1\<lparr>Status_Conditions :=
                          MarkTrue (Status_Conditions ?vm1) VCenterAvailableCondition\<rparr>))"
    using assms(3-8) a f by (rule Reconcile_dispatch)
  from 1 2 show ?thesis unfolding Let_def by (rule conjI)
qed

text \<open>The first reconcile of the fresh sample VM.\<close>

theorem Reconcile_finalizer_first_witness:
  "Reconcile sampleR emptyWorld (Inr sampleVM) =
     (Some (sampleVM\<lparr>Finalizers := [VMFinalizer],
                     Status_Conditions := [VCenterAvailableCondition \<mapsto> TrueCondition]\<rparr>),
      emptyWorld, emptyResult, None)"
proof -
  have "VMFinalizer \<notin> set (Finalizers sampleVM)"
    by (simp add: sampleVM_fields)
  from Reconcile_finalizer_first [OF sampleVM_fields(3) this sampleR_lookups(1-6) sampleR_not_paused
      sampleR_lookups(7), of emptyWorld]
  show ?thesis
    by (simp add: sampleVM_fields Let_def SetSummary_None sampleR_lookups(9) MarkTrue_def)
qed

text \<open>
  C3 as stated fails: the first reconcile of the fresh sample VM also marks
  the vCenter-available condition, which the VM did not have.
\<close>

theorem Reconcile_first_marks_condition_counterexample:
  "Status_Conditions sampleVM VCenterAvailableCondition = None \<and>
   map_option (\<lambda>vm. Status_Conditions vm VCenterAvailableCondition)
     (fst (Reconcile sampleR emptyWorld (Inr sampleVM))) = Some (Some TrueCondition)"
proof -
  have "VMFinalizer \<notin> set (Finalizers sampleVM)"
    by (simp add: sampleVM_fields)
  from Reconcile_first [OF sampleVM_fields(3) this sampleR_lookups(1-6) sampleR_not_paused
      sampleR_lookups(7), of emptyWorld]
  show ?thesis
    by (simp add: sampleVM_fields SetSummary_None sampleR_lookups(9) MarkTrue_def)
qed

text \<open>
  C5. For a VM that carries the finalizer: if the VM that a Reconcile patches
  no longer carries it, the VM was marked for deletion and DestroyVM answered,
  in this reconcile, with no requeue and state NotFound. If DestroyVM answered
  with state Pending or Ready, or with an error, the patched VM still carries
  the finalizer.
\<close>

theorem Reconcile_finalizer_removal:
  assumes "Reconcile r w (Inr vm) = (Some vm', w', result, err)"
    and "VMFinalizer \<in> set (Finalizers vm)"
  shows "let destroyed = DestroyVM r (vm\<lparr>Status_Conditions :=
                           MarkFalse (MarkTrue (Status_Conditions vm) VCenterAvailableCondition)
                             VMProvisionedCondition DeletingReason ConditionSeverityInfo []\<rparr>)
         in (VMFinalizer \<notin> set (Finalizers vm') \<longrightarrow>
               DeletionTimestamp vm \<noteq> None \<and>
               (\<exists>res bvm. destroyed = Inr (res, bvm) \<and> IsZero res \<and>
                  vm_State bvm = VirtualMachineStateNotFound)) \<and>
            ((\<exists>res bvm. destroyed = Inr (res, bvm) \<and>
                (vm_State bvm = VirtualMachineStatePending \<or> vm_State bvm = VirtualMachineStateReady)) \<longrightarrow>
               VMFinalizer \<in> set (Finalizers vm')) \<and>
            ((\<exists>e. destroyed = Inl e) \<longrightarrow> VMFinalizer \<in> set (Finalizers vm'))"
proof -
  let ?vm1 = "vm\<lparr>Status_Conditions := MarkTrue (Status_Conditions vm) VCenterAvailableCondition\<rparr>"
  let ?arg = "vm\<lparr>Status_Conditions :=
                           MarkFalse (MarkTrue (Status_Conditions vm) VCenterAvailableCondition)
                             VMProvisionedCondition DeletingReason ConditionSeverityInfo []\<rparr>"
  have arg: "?vm1\<lparr>Status_Conditions :=
                          MarkFalse (Status_Conditions ?vm1) VMProvisionedCondition
                            DeletingReason ConditionSeverityInfo []\<rparr> = ?arg"
    by simp
  from Reconcile_Some [OF assms(1)] assms(2) obtain vm2 where
    p: "vm' = vm2\<lparr>Status_Conditions := SetSummary r (Status_Conditions vm2)\<rparr>" and
    b: "vm2 = ?vm1 \<or> reconcile r w ?vm1 = (vm2, w', result, err)"
    unfolding Let_def by blast
  from p have u: "Finalizers vm' = Finalizers vm2" by simp
  from b have "Finalizers vm2 = Finalizers vm \<or>
          (DeletionTimestamp vm \<noteq> None \<and>
           (\<exists>res bvm. DestroyVM r ?arg = Inr (res, bvm) \<and>
              IsZero res \<and> vm_State bvm = VirtualMachineStateNotFound))"
  proof
    assume "reconcile r w ?vm1 = (vm2, w', result, err)"
    from reconcile_fields [OF this] show ?thesis unfolding arg by auto
  qed simp
  with u assms(2) show ?thesis unfolding Let_def by auto
qed

text \<open>
  The sample VM marked for deletion: with the VM gone the finalizer is removed,
  with the VM still ready it stays.
\<close>

theorem Reconcile_finalizer_removal_witness:
  "map_option Finalizers (fst (Reconcile sampleR emptyWorld (Inr sampleDeletingVM))) = Some [] \<and>
   map_option (\<lambda>vm. VMFinalizer \<in> set (Finalizers vm))
     (fst (Reconcile stillReadyR emptyWorld (Inr sampleDeletingVM))) = Some True"
proof -
  have 1: "map_option Finalizers (fst (Reconcile sampleR emptyWorld (Inr sampleDeletingVM))) = Some []"
    unfolding sampleR_def sample_Reconcile_deleting
    by (simp add: fst_deferredPatch sample_lookups sampleBackendVM_def sampleDeletingVM_fields
        sample_reconcileDelete_gone [of _ "sampleBackendVM ''h-1'' VirtualMachineStateNotFound"]
        RemoveFinalizer_def)
  let ?out = "Reconcile stillReadyR emptyWorld (Inr sampleDeletingVM)"
  have "\<exists>vm'. fst ?out = Some vm'"
    unfolding stillReadyR_def sample_Reconcile_deleting
    by (simp add: fst_deferredPatch sample_lookups)
  then obtain vm' where v: "fst ?out = Some vm'" by auto
  then have o: "?out = (Some vm', fst (snd ?out), fst (snd (snd ?out)), snd (snd (snd ?out)))"
    by (metis prod.collapse)
  have f: "VMFinalizer \<in> set (Finalizers sampleDeletingVM)"
    by (simp add: sampleDeletingVM_fields)
  from Reconcile_finalizer_removal [OF o f]
  have "VMFinalizer \<in> set (Finalizers vm')"
    by (simp add: Let_def stillReadyR_def sample_lookups sampleBackendVM_def)
  with v 1 show ?thesis by simp
qed

end
